theory Spec2Isabelle
  imports Main "HOL-Library.Word"
begin

unbundle bit_operations_syntax

section \<open>vold: the public volume (PublicVolume.cpp)\<close>

text \<open>
  A shallow embedding of \<^verbatim>\<open>PublicVolume\<close>: the object is a record, every call the
  code makes to a collaborator outside the file (filesystem checkers, mount helpers, libc)
  takes its result from an environment record and is appended to a call log, and the
  system properties are a key-value map. Logging statements have no effect and are left
  out. Strings are C strings throughout (no embedded NUL), so \<^verbatim>\<open>c_str()\<close> and
  \<^verbatim>\<open>strcmp\<close> are identity and equality on \<^typ>\<open>string\<close>.
\<close>

subsection \<open>Constants\<close>

type_synonym status_t = int

definition OK :: status_t where "OK = 0"

text \<open>errno values of \<^verbatim>\<open>errno.h\<close> (Linux).\<close>

definition EINTR :: int where "EINTR = 4"
definition EIO :: int where "EIO = 5"
definition EEXIST :: int where "EEXIST = 17"
definition EINVAL :: int where "EINVAL = 22"

text \<open>Access modes of \<^verbatim>\<open>unistd.h\<close> and the signal number of \<^verbatim>\<open>signal.h\<close>.\<close>

definition F_OK :: int where "F_OK = 0"
definition X_OK :: int where "X_OK = 1"
definition R_OK :: int where "R_OK = 4"
definition SIGTERM :: int where "SIGTERM = 15"

text \<open>\<^verbatim>\<open>private/android_filesystem_config.h\<close>.\<close>

definition AID_ROOT :: nat where "AID_ROOT = 0"

text \<open>
  Modelled from the spec: the mount flags of \<^verbatim>\<open>VolumeBase.h\<close> (not part of the
  source unit) are the bit flags "primary" and "visible"; the values are the ones of the
  enum \<^verbatim>\<open>MountFlags\<close>.
\<close>

definition kPrimary :: int where "kPrimary = 1"
definition kVisible :: int where "kVisible = 2"

definition kFusePath :: string where "kFusePath = ''/system/bin/sdcard''"
definition kAsecPath :: string where "kAsecPath = ''/mnt/secure/asec''"

subsection \<open>Data\<close>

text \<open>
  Modelled from the spec: a device is its (major, minor) pair; the macros
  \<^verbatim>\<open>major\<close> and \<^verbatim>\<open>minor\<close> of \<^verbatim>\<open>sys/sysmacros.h\<close> read the two components as
  unsigned 32-bit numbers.
\<close>

record dev_t =
  dev_major :: "32 word"
  dev_minor :: "32 word"

text \<open>The fields of the base class that this file reads through its getters.\<close>

record VolumeBase =
  mId :: string
  mMountFlags :: int
  mMountUserId :: "32 word"

record PublicVolume =
  base :: VolumeBase
  mDevice :: dev_t
  mDevPath :: string
  mFsType :: string
  mFsUuid :: string
  mFsLabel :: string
  mRawPath :: string
  mFuseDefault :: string
  mFuseRead :: string
  mFuseWrite :: string
  mFusePid :: int

definition getId :: "PublicVolume \<Rightarrow> string" where
  "getId v = mId (base v)"

definition getMountFlags :: "PublicVolume \<Rightarrow> int" where
  "getMountFlags v = mMountFlags (base v)"

definition getMountUserId :: "PublicVolume \<Rightarrow> 32 word" where
  "getMountUserId v = mMountUserId (base v)"

definition setId :: "string \<Rightarrow> PublicVolume \<Rightarrow> PublicVolume" where
  "setId s v = v\<lparr>base := (base v)\<lparr>mId := s\<rparr>\<rparr>"

datatype ResponseCode = VolumeFsTypeChanged | VolumeFsUuidChanged | VolumeFsLabelChanged

text \<open>
  The calls that leave the file, in the order they are made. The calls whose results
  the code drops or only logs (the NTFS mount, the rename and the bind mount of the
  mount path, the teardown calls of \<^verbatim>\<open>doUnmount\<close>, the wipe of \<^verbatim>\<open>doFormat\<close>)
  carry the result they had.
\<close>

datatype event =
    ReadMetadataUntrusted string
  | NotifyEvent ResponseCode string
  | VfatCheck string
  | NtfsCheck string
  | SetInternalPath string
  | SetPath string
  | FsPrepareDir string nat nat nat
  | NtfsDoMount string string int
  | VfatMount string string
  | Access string int
  | Rename string string int
  | Mkdir string nat
  | BindMount string string int
  | GetDevice string
  | Fork
  | Execl string "string list"
  | Usleep nat
  | Kill int int int
  | Waitpid int
  | ForceUnmount string int
  | Rmdir string int
  | WipeBlockDevice string status_t
  | VfatFormat string nat

text \<open>
  The environment: what each outside call answers. A call that sets \<^verbatim>\<open>errno\<close>
  answers the pair (result, errno). Calls made in a loop answer by attempt number.
\<close>

record env =
  e_ReadMetadataUntrusted :: "string \<Rightarrow> status_t \<times> string \<times> string \<times> string"
  e_vfat_Check :: "string \<Rightarrow> int"
  e_Ntfs_check :: "string \<Rightarrow> int"
  e_fs_prepare_dir :: "string \<Rightarrow> int \<times> int"
  e_Ntfs_doMount :: "string \<Rightarrow> string \<Rightarrow> int"
  e_vfat_Mount :: "string \<Rightarrow> string \<Rightarrow> int"
  e_access :: "string \<Rightarrow> int \<Rightarrow> int"
  e_rename :: "string \<Rightarrow> string \<Rightarrow> int"
  e_mkdir :: "string \<Rightarrow> nat \<Rightarrow> int \<times> int"
  e_BindMount :: "string \<Rightarrow> string \<Rightarrow> int"
  e_GetDevice :: "string \<Rightarrow> nat \<Rightarrow> dev_t"
  e_fork :: "int \<times> int"
  e_execl :: "string \<Rightarrow> string list \<Rightarrow> int option"
  e_kill :: "int \<Rightarrow> int \<Rightarrow> int"
  e_waitpid :: "int \<Rightarrow> nat \<Rightarrow> int \<times> int"
  e_ForceUnmount :: "string \<Rightarrow> int"
  e_rmdir :: "string \<Rightarrow> int"
  e_WipeBlockDevice :: "string \<Rightarrow> status_t"
  e_vfat_Format :: "string \<Rightarrow> int \<times> int"

record world =
  vol :: PublicVolume
  props :: "string \<Rightarrow> string option"
  calls :: "event list"

definition emit :: "event \<Rightarrow> world \<Rightarrow> world" where
  "emit ev w = w\<lparr>calls := calls w @ [ev]\<rparr>"

text \<open>How a call of this file ends: it returns, or (in the forked child) the process
  image is replaced or the process exits.\<close>

datatype ret = Return status_t | ChildExec | ChildExit int

subsection \<open>Formatting numbers\<close>

text \<open>The conversion \<^verbatim>\<open>%u\<close> of \<^verbatim>\<open>StringPrintf\<close>, and \<^verbatim>\<open>std::to_string\<close> on an
  unsigned number: decimal digits, no leading zero.\<close>

definition digit_char :: "nat \<Rightarrow> char" where
  "digit_char d = ''0123456789'' ! d"

fun format_u :: "nat \<Rightarrow> string" where
  "format_u n = (if n < 10 then [digit_char n] else format_u (n div 10) @ [digit_char (n mod 10)])"

declare format_u.simps [simp del]

subsection \<open>Construction\<close>

text \<open>
  Lines 56-60. The base-class constructor is outside the file, so the constructed base
  object is a parameter; the string members start empty.
\<close>

definition PublicVolume_ctor :: "VolumeBase \<Rightarrow> dev_t \<Rightarrow> PublicVolume" where
  "PublicVolume_ctor b device =
     (let v0 = \<lparr>base = b, mDevice = device, mDevPath = [], mFsType = [], mFsUuid = [],
                mFsLabel = [], mRawPath = [], mFuseDefault = [], mFuseRead = [],
                mFuseWrite = [], mFusePid = 0\<rparr>;
          v1 = setId (''public:'' @ format_u (unat (dev_major device)) @ '':''
                        @ format_u (unat (dev_minor device))) v0
      in v1\<lparr>mDevPath := ''/dev/block/vold/'' @ getId v1\<rparr>)"

subsection \<open>doFormat\<close>

text \<open>Lines 366-381.\<close>

definition doFormat :: "env \<Rightarrow> string \<Rightarrow> world \<Rightarrow> status_t \<times> world" where
  "doFormat e fsType w =
     (if fsType = ''vfat'' \<or> fsType = ''auto'' then
        (let w1 = emit (WipeBlockDevice (mDevPath (vol w))
                          (e_WipeBlockDevice e (mDevPath (vol w)))) w;
             w2 = emit (VfatFormat (mDevPath (vol w)) 0) w1;
             (rc, err) = e_vfat_Format e (mDevPath (vol w))
         in if rc \<noteq> 0 then (- err, w2) else (OK, w2))
      else (- EINVAL, w))"

subsection \<open>System properties\<close>

text \<open>
  Modelled from the spec: the property store of \<^verbatim>\<open>cutils/properties.h\<close> (not part of
  the source unit) holds global key-value entries. \<^verbatim>\<open>property_get\<close> answers the
  default for a key that is unset or empty; \<^verbatim>\<open>property_get_bool\<close> reads a flag, which
  is claimed for the values "1", "y", "yes", "true", "on", idle for "0", "n", "no",
  "false", "off", and the default otherwise.
\<close>

definition property_set :: "string \<Rightarrow> string \<Rightarrow> world \<Rightarrow> world" where
  "property_set k val w = w\<lparr>props := (props w)(k \<mapsto> val)\<rparr>"

definition property_get :: "world \<Rightarrow> string \<Rightarrow> string \<Rightarrow> string" where
  "property_get w k dflt =
     (case props w k of None \<Rightarrow> dflt | Some val \<Rightarrow> if val = [] then dflt else val)"

definition property_get_bool :: "world \<Rightarrow> string \<Rightarrow> int \<Rightarrow> int" where
  "property_get_bool w k dflt =
     (let val = property_get w k [] in
      if val = ''0'' \<or> val = ''n'' \<or> val = ''no'' \<or> val = ''false'' \<or> val = ''off'' then 0
      else if val = ''1'' \<or> val = ''y'' \<or> val = ''yes'' \<or> val = ''true'' \<or> val = ''on'' then 1
      else dflt)"

subsection \<open>Retried calls and the readiness poll\<close>

text \<open>
  Modelled from the spec: the macro \<^verbatim>\<open>TEMP_FAILURE_RETRY\<close> of \<^verbatim>\<open>unistd.h\<close> (not part
  of the source unit) retries a call that was interrupted: it repeats the call while it
  answers -1 with \<^verbatim>\<open>errno == EINTR\<close>. The first argument gives the answer of each
  attempt; the result is the last answer and the number of attempts made. A call that is
  interrupted forever never returns: the value is \<open>None\<close>.
\<close>

partial_function (option) TEMP_FAILURE_RETRY :: "(nat \<Rightarrow> int \<times> int) \<Rightarrow> nat \<Rightarrow> (int \<times> int \<times> nat) option" where
  "TEMP_FAILURE_RETRY f n =
     (if fst (f n) = - 1 \<and> snd (f n) = EINTR then TEMP_FAILURE_RETRY f (Suc n)
      else Some (fst (f n), snd (f n), Suc n))"

declare TEMP_FAILURE_RETRY.simps [code]

text \<open>Lines 280-283: poll the device of the write view until it differs from the sample
  taken before the fork. Sample 0 is that first sample; the loop takes sample \<open>n\<close>.\<close>

partial_function (option) waitForFuse :: "env \<Rightarrow> string \<Rightarrow> dev_t \<Rightarrow> nat \<Rightarrow> world \<Rightarrow> world option" where
  "waitForFuse e p dev_before n w =
     (if dev_before = e_GetDevice e p n
      then waitForFuse e p dev_before (Suc n) (emit (Usleep 50000) (emit (GetDevice p) w))
      else Some (emit (GetDevice p) w))"

declare waitForFuse.simps [code]

subsection \<open>readMetadata and initAsecStage\<close>

text \<open>Lines 65-71.\<close>

definition readMetadata :: "env \<Rightarrow> world \<Rightarrow> status_t \<times> world" where
  "readMetadata e w =
     (let (res, t, u, l) = e_ReadMetadataUntrusted e (mDevPath (vol w));
          w1 = emit (ReadMetadataUntrusted (mDevPath (vol w))) w;
          w2 = w1\<lparr>vol := (vol w1)\<lparr>mFsType := t, mFsUuid := u, mFsLabel := l\<rparr>\<rparr>;
          w3 = emit (NotifyEvent VolumeFsTypeChanged (mFsType (vol w2))) w2;
          w4 = emit (NotifyEvent VolumeFsUuidChanged (mFsUuid (vol w3))) w3;
          w5 = emit (NotifyEvent VolumeFsLabelChanged (mFsLabel (vol w4))) w4
      in (res, w5))"

text \<open>Lines 73-95. The second \<^verbatim>\<open>access\<close> is made only when the first one answers 0.\<close>

definition initAsecStage :: "env \<Rightarrow> world \<Rightarrow> (status_t \<times> world) option" where
  "initAsecStage e w =
     (let legacyPath = mRawPath (vol w) @ ''/android_secure'';
          securePath = mRawPath (vol w) @ ''/.android_secure'';
          w1 = emit (Access legacyPath (R_OK OR X_OK)) w;
          w2 = (if e_access e legacyPath (R_OK OR X_OK) = 0
                then (let w1' = emit (Access securePath (R_OK OR X_OK)) w1 in
                      if e_access e securePath (R_OK OR X_OK) \<noteq> 0
                      then emit (Rename legacyPath securePath (e_rename e legacyPath securePath)) w1'
                      else w1')
                else w1)
      in case TEMP_FAILURE_RETRY (e_mkdir e securePath) 0 of
           None \<Rightarrow> None
         | Some (rc, err, n) \<Rightarrow>
             (let w3 = w2\<lparr>calls := calls w2 @ replicate n (Mkdir securePath 448)\<rparr> in
              if rc \<noteq> 0 \<and> err \<noteq> EEXIST then Some (- err, w3)
              else Some (OK, emit (BindMount securePath kAsecPath
                                        (e_BindMount e securePath kAsecPath)) w3)))"

subsection \<open>doMount\<close>

definition stableName :: "PublicVolume \<Rightarrow> string" where
  \<comment> \<open>lines 125-129 and 313-318: the UUID if there is one, else the id\<close>
  "stableName v = (if mFsUuid v \<noteq> [] then mFsUuid v else getId v)"

text \<open>Lines 240-285: return at once for a volume that is not visible, else fork the FUSE
  daemon and wait for it.\<close>

definition spinUpFuse :: "env \<Rightarrow> string \<Rightarrow> world \<Rightarrow> (ret \<times> world) option" where
  "spinUpFuse e sn w =
     (if getMountFlags (vol w) AND kVisible = 0 then Some (Return OK, w)
      else
        (let dev_before = e_GetDevice e (mFuseWrite (vol w)) 0;
             w1 = emit (GetDevice (mFuseWrite (vol w))) w;
             w2 = emit Fork (w1\<lparr>vol := (vol w1)\<lparr>mFusePid := fst (e_fork e)\<rparr>\<rparr>)
         in if mFusePid (vol w2) = 0 then
              (let args = (if getMountFlags (vol w2) AND kPrimary \<noteq> 0
                           then [kFusePath, ''-u'', ''1023'', ''-g'', ''1023'', ''-U'',
                                 format_u (unat (getMountUserId (vol w2))), ''-w'',
                                 mRawPath (vol w2), sn]
                           else [kFusePath, ''-u'', ''1023'', ''-g'', ''1023'', ''-U'',
                                 format_u (unat (getMountUserId (vol w2))),
                                 mRawPath (vol w2), sn]);
                   w3 = emit (Execl kFusePath args) w2
               in case e_execl e kFusePath args of
                    None \<Rightarrow> Some (ChildExec, w3)
                  | Some rc \<Rightarrow> Some (ChildExit 1, w3))
            else if mFusePid (vol w2) = - 1 then Some (Return (- snd (e_fork e)), w2)
            else (case waitForFuse e (mFuseWrite (vol w2)) dev_before 1 w2 of
                    None \<Rightarrow> None
                  | Some w3 \<Rightarrow> Some (Return OK, w3))))"

text \<open>Lines 235-285, from the label \<^verbatim>\<open>uevent_handled\<close>; the status of
  \<^verbatim>\<open>initAsecStage\<close> is dropped.\<close>

definition uevent_handled :: "env \<Rightarrow> string \<Rightarrow> world \<Rightarrow> (ret \<times> world) option" where
  "uevent_handled e sn w =
     (if getMountFlags (vol w) AND kPrimary \<noteq> 0
      then (case initAsecStage e w of None \<Rightarrow> None | Some (res, w1) \<Rightarrow> spinUpFuse e sn w1)
      else spinUpFuse e sn w)"

text \<open>Lines 216-233, then the label.\<close>

definition cust_hook :: "env \<Rightarrow> string \<Rightarrow> string \<Rightarrow> int \<Rightarrow> world \<Rightarrow> world" where
  "cust_hook e sn custPath cust_trigger w =
     (if cust_trigger = 1 then w
      else (let w1 = emit (Access custPath F_OK) w in
            if e_access e custPath F_OK = 0 then
              property_set ''sys.cust.trigger'' ''1''
                (property_set ''sys.cust.storage'' sn
                  (property_set ''sys.cust.path'' custPath w1))
            else w1))"

text \<open>Lines 197-214; \<^verbatim>\<open>goto uevent_handled\<close> skips the hook after it.\<close>

definition startup_hook :: "env \<Rightarrow> string \<Rightarrow> string \<Rightarrow> string \<Rightarrow> int \<Rightarrow> int \<Rightarrow> world \<Rightarrow> world" where
  "startup_hook e sn startupPath custPath startup_trigger cust_trigger w =
     (if startup_trigger = 1 then cust_hook e sn custPath cust_trigger w
      else (let w1 = emit (Access startupPath F_OK) w in
            if e_access e startupPath F_OK = 0 then
              property_set ''sys.startup.trigger'' ''1''
                (property_set ''sys.startup.storage'' sn
                  (property_set ''sys.startup.path'' startupPath w1))
            else cust_hook e sn custPath cust_trigger w1))"

text \<open>Lines 178-195; \<^verbatim>\<open>goto uevent_handled\<close> skips the two hooks after it.\<close>

definition update_hook :: "env \<Rightarrow> string \<Rightarrow> string \<Rightarrow> string \<Rightarrow> string \<Rightarrow> int \<Rightarrow> int \<Rightarrow> int \<Rightarrow> world \<Rightarrow> world" where
  "update_hook e sn updatePath startupPath custPath update_trigger startup_trigger cust_trigger w =
     (if update_trigger = 1
      then startup_hook e sn startupPath custPath startup_trigger cust_trigger w
      else (let w1 = emit (Access updatePath F_OK) w in
            if e_access e updatePath F_OK = 0 then
              property_set ''sys.update.trigger'' ''1''
                (property_set ''sys.update.path'' updatePath
                  (property_set ''sys.update.storage'' sn w1))
            else startup_hook e sn startupPath custPath startup_trigger cust_trigger w1))"

text \<open>Lines 159-165: the four directories, stopping at the first failure, whose
  \<^verbatim>\<open>errno\<close> is the one returned.\<close>

fun prepare_dirs :: "env \<Rightarrow> string list \<Rightarrow> world \<Rightarrow> int option \<times> world" where
  "prepare_dirs e [] w = (None, w)"
| "prepare_dirs e (p # ps) w =
     (let w1 = emit (FsPrepareDir p 448 AID_ROOT AID_ROOT) w in
      if fst (e_fs_prepare_dir e p) \<noteq> 0 then (Some (snd (e_fs_prepare_dir e p)), w1)
      else prepare_dirs e ps w1)"

text \<open>Lines 131-135: the four paths of the mount session.\<close>

definition assign_paths :: "string \<Rightarrow> world \<Rightarrow> world" where
  "assign_paths sn w =
     w\<lparr>vol := (vol w)\<lparr>mRawPath := ''/mnt/media_rw/'' @ sn,
                       mFuseDefault := ''/mnt/runtime/default/'' @ sn,
                       mFuseRead := ''/mnt/runtime/read/'' @ sn,
                       mFuseWrite := ''/mnt/runtime/write/'' @ sn\<rparr>\<rparr>"

text \<open>Lines 152-157: the two paths reported to the base class.\<close>

definition report_paths :: "string \<Rightarrow> world \<Rightarrow> world" where
  "report_paths sn w =
     (let w1 = emit (SetInternalPath (mRawPath (vol w))) w in
      if getMountFlags (vol w1) AND kVisible \<noteq> 0
      then emit (SetPath (''/storage/'' @ sn)) w1
      else emit (SetPath (mRawPath (vol w1))) w1)"

text \<open>Lines 167-285: the native mount of the probed family, then the hooks and the
  rest. A failed NTFS mount is only logged; a failed vfat mount returns.\<close>

definition mount_and_hooks ::
  "env \<Rightarrow> int \<Rightarrow> string \<Rightarrow> string \<Rightarrow> string \<Rightarrow> string \<Rightarrow> int \<Rightarrow> int \<Rightarrow> int \<Rightarrow> world
     \<Rightarrow> (ret \<times> world) option" where
  "mount_and_hooks e ntfs sn updatePath startupPath custPath
       update_trigger startup_trigger cust_trigger w =
     (if ntfs \<noteq> 0 then
        (let w1 = emit (NtfsDoMount (mDevPath (vol w)) (mRawPath (vol w))
                          (e_Ntfs_doMount e (mDevPath (vol w)) (mRawPath (vol w)))) w in
         uevent_handled e sn
           (update_hook e sn updatePath startupPath custPath
              update_trigger startup_trigger cust_trigger w1))
      else
        (let w1 = emit (VfatMount (mDevPath (vol w)) (mRawPath (vol w))) w in
         if e_vfat_Mount e (mDevPath (vol w)) (mRawPath (vol w)) \<noteq> 0
         then Some (Return (- EIO), w1)
         else uevent_handled e sn
                (update_hook e sn updatePath startupPath custPath
                   update_trigger startup_trigger cust_trigger w1)))"

text \<open>Lines 125-285: everything after the probe; \<open>ntfs\<close> is the flag the probe set.
  The three trigger flags are read (lines 139-149) before the directories are made.\<close>

definition doMount_probed :: "env \<Rightarrow> int \<Rightarrow> world \<Rightarrow> (ret \<times> world) option" where
  "doMount_probed e ntfs w =
     (let sn = stableName (vol w);
          w1 = assign_paths sn w;
          updatePath = mRawPath (vol w1) @ ''/OTA/update.zip'';
          update_trigger = property_get_bool w1 ''sys.update.trigger'' 0;
          startupPath = mRawPath (vol w1) @ ''/startup/start_up.sh'';
          startup_trigger = property_get_bool w1 ''sys.startup.trigger'' 0;
          custPath = mRawPath (vol w1) @ ''/cust/cust_update.zip'';
          cust_trigger = property_get_bool w1 ''sys.cust.trigger'' 0;
          w2 = report_paths sn w1;
          pd = prepare_dirs e [mRawPath (vol w2), mFuseDefault (vol w2),
                               mFuseRead (vol w2), mFuseWrite (vol w2)] w2
      in case fst pd of
           Some err \<Rightarrow> Some (Return (- err), snd pd)
         | None \<Rightarrow>
             mount_and_hooks e ntfs sn updatePath startupPath custPath
               update_trigger startup_trigger cust_trigger (snd pd))"

text \<open>Lines 105-123, then the rest.\<close>

definition doMount :: "env \<Rightarrow> world \<Rightarrow> (ret \<times> world) option" where
  "doMount e w =
     (let w1 = snd (readMetadata e w) in
      if mFsType (vol w1) \<noteq> ''vfat'' \<and> mFsType (vol w1) \<noteq> ''ntfs''
      then Some (Return (- EIO), w1)
      else
        (let w2 = emit (VfatCheck (mDevPath (vol w1))) w1 in
         if e_vfat_Check e (mDevPath (vol w1)) \<noteq> 0 then
           (let w3 = emit (NtfsCheck (mDevPath (vol w1))) w2 in
            if e_Ntfs_check e (mDevPath (vol w1)) = 0 then doMount_probed e 1 w3
            else Some (Return (- EIO), w3))
         else doMount_probed e 0 w2))"

subsection \<open>doUnmount\<close>

text \<open>Lines 320-359, one of the three blocks: the slot's storage name is read and
  compared with the stable name, and the three properties are reset on equality.\<close>

definition clear_slot :: "string \<Rightarrow> string \<Rightarrow> string \<Rightarrow> string \<Rightarrow> world \<Rightarrow> world" where
  "clear_slot path_key storage_key trigger_key sn w =
     (if property_get w storage_key [] = sn then
        property_set trigger_key ''0''
          (property_set storage_key []
            (property_set path_key [] w))
      else w)"

text \<open>Lines 289-293: signal the FUSE daemon and wait for it, when a pid is recorded.\<close>

definition reapFuse :: "env \<Rightarrow> world \<Rightarrow> world option" where
  "reapFuse e w =
     (if mFusePid (vol w) > 0 then
        (let pid = mFusePid (vol w);
             w1 = emit (Kill pid SIGTERM (e_kill e pid SIGTERM)) w
         in case TEMP_FAILURE_RETRY (e_waitpid e pid) 0 of
              None \<Rightarrow> None
            | Some (rc, err, n) \<Rightarrow>
                Some (w1\<lparr>vol := (vol w1)\<lparr>mFusePid := 0\<rparr>,
                         calls := calls w1 @ replicate n (Waitpid pid)\<rparr>))
      else Some w)"

text \<open>Lines 295-305: the five forced unmounts and the four \<^verbatim>\<open>rmdir\<close>; no result is
  looked at.\<close>

definition force_unmount_all :: "env \<Rightarrow> world \<Rightarrow> world" where
  "force_unmount_all e w =
     (let v = vol w in
      w\<lparr>calls := calls w @
          [ForceUnmount kAsecPath (e_ForceUnmount e kAsecPath),
           ForceUnmount (mFuseDefault v) (e_ForceUnmount e (mFuseDefault v)),
           ForceUnmount (mFuseRead v) (e_ForceUnmount e (mFuseRead v)),
           ForceUnmount (mFuseWrite v) (e_ForceUnmount e (mFuseWrite v)),
           ForceUnmount (mRawPath v) (e_ForceUnmount e (mRawPath v)),
           Rmdir (mFuseDefault v) (e_rmdir e (mFuseDefault v)),
           Rmdir (mFuseRead v) (e_rmdir e (mFuseRead v)),
           Rmdir (mFuseWrite v) (e_rmdir e (mFuseWrite v)),
           Rmdir (mRawPath v) (e_rmdir e (mRawPath v))]\<rparr>)"

text \<open>Lines 307-310.\<close>

definition clear_paths :: "world \<Rightarrow> world" where
  "clear_paths w =
     w\<lparr>vol := (vol w)\<lparr>mFuseDefault := [], mFuseRead := [], mFuseWrite := [], mRawPath := []\<rparr>\<rparr>"

text \<open>Lines 312-361: the stable name again, then the three slots in turn.\<close>

definition clear_slots :: "world \<Rightarrow> world" where
  "clear_slots w =
     (let sn = stableName (vol w);
          w1 = clear_slot ''sys.update.path'' ''sys.update.storage'' ''sys.update.trigger'' sn w;
          w2 = clear_slot ''sys.startup.path'' ''sys.startup.storage'' ''sys.startup.trigger'' sn w1
      in clear_slot ''sys.cust.path'' ''sys.cust.storage'' ''sys.cust.trigger'' sn w2)"

text \<open>Lines 288-364.\<close>

definition doUnmount :: "env \<Rightarrow> world \<Rightarrow> (status_t \<times> world) option" where
  "doUnmount e w =
     (case reapFuse e w of
        None \<Rightarrow> None
      | Some w1 \<Rightarrow> Some (OK, clear_slots (clear_paths (force_unmount_all e w1))))"

subsection \<open>Kinds of calls\<close>

text \<open>The calls of the log, grouped by the step of the mount, unmount or format
  sequence that makes them; used to say which steps a call sequence contains.\<close>

datatype call_kind =
  Metadata | Check | Paths | PrepareDir | NativeMount | FileProbe | Staging | Bridge
  | Teardown | Format

fun kind :: "event \<Rightarrow> call_kind" where
  "kind (ReadMetadataUntrusted p) = Metadata"
| "kind (NotifyEvent c s) = Metadata"
| "kind (VfatCheck p) = Check"
| "kind (NtfsCheck p) = Check"
| "kind (SetInternalPath p) = Paths"
| "kind (SetPath p) = Paths"
| "kind (FsPrepareDir p m u g) = PrepareDir"
| "kind (NtfsDoMount s t r) = NativeMount"
| "kind (VfatMount s t) = NativeMount"
| "kind (Access p m) = FileProbe"
| "kind (Rename a b r) = Staging"
| "kind (Mkdir p m) = Staging"
| "kind (BindMount a b r) = Staging"
| "kind (GetDevice p) = Bridge"
| "kind Fork = Bridge"
| "kind (Execl p a) = Bridge"
| "kind (Usleep n) = Bridge"
| "kind (Kill p s r) = Teardown"
| "kind (Waitpid p) = Teardown"
| "kind (ForceUnmount p r) = Teardown"
| "kind (Rmdir p r) = Teardown"
| "kind (WipeBlockDevice p r) = Format"
| "kind (VfatFormat p n) = Format"

subsection \<open>Example environments and states\<close>

text \<open>
  An environment in which every collaborator succeeds: the medium is vfat with UUID
  "ABCD-1234", no trigger file exists, the fork answers pid 4321 and the write view
  changes device at the second poll.
\<close>

definition env0 :: env where
  "env0 = \<lparr>e_ReadMetadataUntrusted = (\<lambda>p. (0, ''vfat'', ''ABCD-1234'', ''SDCARD'')),
     e_vfat_Check = (\<lambda>p. 0), e_Ntfs_check = (\<lambda>p. 0), e_fs_prepare_dir = (\<lambda>p. (0, 0)),
     e_Ntfs_doMount = (\<lambda>s t. 0), e_vfat_Mount = (\<lambda>s t. 0), e_access = (\<lambda>p m. - 1),
     e_rename = (\<lambda>a b. 0), e_mkdir = (\<lambda>p n. (0, 0)), e_BindMount = (\<lambda>a b. 0),
     e_GetDevice = (\<lambda>p n. if n < 2 then \<lparr>dev_major = 0, dev_minor = 1\<rparr>
                            else \<lparr>dev_major = 0, dev_minor = 31\<rparr>),
     e_fork = (4321, 0), e_execl = (\<lambda>p a. None), e_kill = (\<lambda>p s. 0),
     e_waitpid = (\<lambda>p n. (p, 0)), e_ForceUnmount = (\<lambda>p. 0), e_rmdir = (\<lambda>p. 0),
     e_WipeBlockDevice = (\<lambda>p. 0), e_vfat_Format = (\<lambda>p. (0, 0))\<rparr>"

text \<open>The volume of device 179:1 as constructed, visible and not primary, with no
  property set and nothing called yet.\<close>

definition world0 :: world where
  "world0 = \<lparr>vol = PublicVolume_ctor \<lparr>mId = [], mMountFlags = kVisible, mMountUserId = 0\<rparr>
                      \<lparr>dev_major = 179, dev_minor = 1\<rparr>,
              props = Map.empty, calls = []\<rparr>"

text \<open>The same volume when it is neither visible nor primary.\<close>

definition hidden0 :: world where
  "hidden0 = \<lparr>vol = PublicVolume_ctor \<lparr>mId = [], mMountFlags = 0, mMountUserId = 0\<rparr>
                      \<lparr>dev_major = 179, dev_minor = 1\<rparr>,
              props = Map.empty, calls = []\<rparr>"

text \<open>A medium without UUID.\<close>

definition env_no_uuid :: env where
  "env_no_uuid = env0\<lparr>e_ReadMetadataUntrusted := (\<lambda>p. (0, ''vfat'', [], []))\<rparr>"

text \<open>A medium that neither checker accepts.\<close>

definition env_both_checks_fail :: env where
  "env_both_checks_fail = env0\<lparr>e_vfat_Check := (\<lambda>p. - 1), e_Ntfs_check := (\<lambda>p. - 1)\<rparr>"

text \<open>An NTFS medium: the vfat check fails, the NTFS check passes, and the NTFS mount
  then fails.\<close>

definition env_ntfs_mount_fails :: env where
  "env_ntfs_mount_fails =
     env0\<lparr>e_ReadMetadataUntrusted := (\<lambda>p. (0, ''ntfs'', ''ABCD-1234'', ''USB'')),
          e_vfat_Check := (\<lambda>p. - 1), e_Ntfs_doMount := (\<lambda>s t. - 1)\<rparr>"

text \<open>The fork fails with \<^verbatim>\<open>ENOMEM\<close> (12).\<close>

definition env_fork_fails :: env where
  "env_fork_fails = env0\<lparr>e_fork := (- 1, 12)\<rparr>"

text \<open>Every teardown call fails.\<close>

definition env_teardown_fails :: env where
  "env_teardown_fails = env0\<lparr>e_kill := (\<lambda>p s. - 1), e_waitpid := (\<lambda>p n. (- 1, 10)),
                             e_ForceUnmount := (\<lambda>p. - 1), e_rmdir := (\<lambda>p. - 1)\<rparr>"

text \<open>A primary volume that is not visible, with its raw path set, and an environment in
  which the first \<^verbatim>\<open>mkdir\<close> of the staging directory is interrupted.\<close>

definition primary0 :: world where
  "primary0 = hidden0\<lparr>vol := (vol hidden0)\<lparr>base := (base (vol hidden0))\<lparr>mMountFlags := kPrimary\<rparr>,
                                            mRawPath := ''/mnt/media_rw/ABCD-1234''\<rparr>\<rparr>"

definition env_mkdir_interrupted :: env where
  "env_mkdir_interrupted = env0\<lparr>e_mkdir := (\<lambda>p n. if n = 0 then (- 1, EINTR) else (0, 0))\<rparr>"

text \<open>The visible volume after a mount that forked the daemon as pid 4321, the same
  volume after a failed fork, and the mounted volume when the update slot is claimed by
  it and the startup slot by another volume.\<close>

definition bridged0 :: world where
  "bridged0 = world0\<lparr>vol := (vol world0)\<lparr>mFsType := ''vfat'', mFsUuid := ''ABCD-1234'',
                                          mRawPath := ''/mnt/media_rw/ABCD-1234'',
                                          mFuseDefault := ''/mnt/runtime/default/ABCD-1234'',
                                          mFuseRead := ''/mnt/runtime/read/ABCD-1234'',
                                          mFuseWrite := ''/mnt/runtime/write/ABCD-1234'',
                                          mFusePid := 4321\<rparr>\<rparr>"

definition unforked0 :: world where
  "unforked0 = bridged0\<lparr>vol := (vol bridged0)\<lparr>mFusePid := - 1\<rparr>\<rparr>"

definition slots0 :: world where
  "slots0 = bridged0\<lparr>props := map_of
      [(''sys.update.path'', ''/mnt/media_rw/ABCD-1234/OTA/update.zip''),
       (''sys.update.storage'', ''ABCD-1234''),
       (''sys.update.trigger'', ''1''),
       (''sys.startup.path'', ''/mnt/media_rw/EF01-5678/startup/start_up.sh''),
       (''sys.startup.storage'', ''EF01-5678''),
       (''sys.startup.trigger'', ''1'')]\<rparr>"

text \<open>The mount-session fields are all empty or all populated.\<close>

definition session_consistent :: "PublicVolume \<Rightarrow> bool" where
  "session_consistent v \<longleftrightarrow>
     mRawPath v = [] \<and> mFuseDefault v = [] \<and> mFuseRead v = [] \<and> mFuseWrite v = []
     \<or> mRawPath v \<noteq> [] \<and> mFuseDefault v \<noteq> [] \<and> mFuseRead v \<noteq> [] \<and> mFuseWrite v \<noteq> []"

subsection \<open>The hooks as the specification words them\<close>

text \<open>
  The specification describes the three hook blocks as one loop over hook descriptors
  (trigger file and the three keys of the slot): a hook whose flag is claimed is skipped;
  otherwise the trigger file is looked for, and the first hook whose file is there
  populates its slot and ends the evaluation.
\<close>

record hook =
  hook_file :: string
  hook_path_key :: string
  hook_storage_key :: string
  hook_trigger_key :: string

definition hook_claimed :: "world \<Rightarrow> hook \<Rightarrow> bool" where
  "hook_claimed w h \<longleftrightarrow> property_get_bool w (hook_trigger_key h) 0 = 1"

definition claim_slot :: "string \<Rightarrow> hook \<Rightarrow> world \<Rightarrow> world" where
  "claim_slot sn h w =
     w\<lparr>props := (props w)(hook_path_key h \<mapsto> hook_file h, hook_storage_key h \<mapsto> sn,
                             hook_trigger_key h \<mapsto> ''1'')\<rparr>"

fun eval_hooks :: "env \<Rightarrow> string \<Rightarrow> hook list \<Rightarrow> world \<Rightarrow> world" where
  "eval_hooks e sn [] w = w"
| "eval_hooks e sn (h # hs) w =
     (if hook_claimed w h then eval_hooks e sn hs w
      else if e_access e (hook_file h) F_OK = 0
           then claim_slot sn h (emit (Access (hook_file h) F_OK) w)
           else eval_hooks e sn hs (emit (Access (hook_file h) F_OK) w))"

definition mount_hooks :: "string \<Rightarrow> hook list" where
  "mount_hooks raw =
     [\<lparr>hook_file = raw @ ''/OTA/update.zip'', hook_path_key = ''sys.update.path'',
       hook_storage_key = ''sys.update.storage'', hook_trigger_key = ''sys.update.trigger''\<rparr>,
      \<lparr>hook_file = raw @ ''/startup/start_up.sh'', hook_path_key = ''sys.startup.path'',
       hook_storage_key = ''sys.startup.storage'', hook_trigger_key = ''sys.startup.trigger''\<rparr>,
      \<lparr>hook_file = raw @ ''/cust/cust_update.zip'', hook_path_key = ''sys.cust.path'',
       hook_storage_key = ''sys.cust.storage'', hook_trigger_key = ''sys.cust.trigger''\<rparr>]"

text \<open>The update slot is claimed already, and only the startup trigger file exists.\<close>

definition claimed0 :: world where
  "claimed0 = hidden0\<lparr>props := map_of [(''sys.update.trigger'', ''1'')]\<rparr>"

definition env_startup_file :: env where
  "env_startup_file =
     env0\<lparr>e_access := (\<lambda>p m. if p = ''/mnt/media_rw/ABCD-1234/startup/start_up.sh'' then 0 else - 1)\<rparr>"

text \<open>What is observed of a call that returned: its status and the recorded pid, and
  its log.\<close>

definition outcome :: "('a \<times> world) option \<Rightarrow> ('a \<times> int) option" where
  "outcome x = (case x of None \<Rightarrow> None | Some (r, w) \<Rightarrow> Some (r, mFusePid (vol w)))"

definition log_of :: "('a \<times> world) option \<Rightarrow> event list" where
  "log_of x = (case x of None \<Rightarrow> [] | Some (r, w) \<Rightarrow> calls w)"

section \<open>Properties\<close>

subsection \<open>What each step changes\<close>

lemma emit_vol [simp]: "vol (emit ev w) = vol w"
  and emit_props [simp]: "props (emit ev w) = props w"
  and emit_calls [simp]: "calls (emit ev w) = calls w @ [ev]"
  by (simp_all add: emit_def)

lemma property_set_vol [simp]: "vol (property_set k x w) = vol w"
  and property_set_calls [simp]: "calls (property_set k x w) = calls w"
  and property_set_props [simp]: "props (property_set k x w) = (props w)(k \<mapsto> x)"
  by (simp_all add: property_set_def)

lemma world_eqI: "vol a = vol b \<Longrightarrow> props a = props b \<Longrightarrow> calls a = calls b \<Longrightarrow> a = (b::world)"
  by simp

lemma readMetadata_vol:
  "vol (snd (readMetadata e w)) =
     (vol w)\<lparr>mFsType := fst (snd (e_ReadMetadataUntrusted e (mDevPath (vol w)))),
             mFsUuid := fst (snd (snd (e_ReadMetadataUntrusted e (mDevPath (vol w))))),
             mFsLabel := snd (snd (snd (e_ReadMetadataUntrusted e (mDevPath (vol w)))))\<rparr>"
  by (simp add: readMetadata_def Let_def split: prod.splits)

lemma readMetadata_props: "props (snd (readMetadata e w)) = props w"
  by (simp add: readMetadata_def Let_def split: prod.splits)

lemma readMetadata_calls:
  "calls (snd (readMetadata e w)) = calls w @
     [ReadMetadataUntrusted (mDevPath (vol w)),
      NotifyEvent VolumeFsTypeChanged (fst (snd (e_ReadMetadataUntrusted e (mDevPath (vol w))))),
      NotifyEvent VolumeFsUuidChanged (fst (snd (snd (e_ReadMetadataUntrusted e (mDevPath (vol w)))))),
      NotifyEvent VolumeFsLabelChanged (snd (snd (snd (e_ReadMetadataUntrusted e (mDevPath (vol w))))))]"
  by (simp add: readMetadata_def Let_def split: prod.splits)

lemma prepare_dirs_vol: "vol (snd (prepare_dirs e ps w)) = vol w"
  by (induction ps arbitrary: w) (simp_all add: Let_def)

lemma prepare_dirs_props: "props (snd (prepare_dirs e ps w)) = props w"
  by (induction ps arbitrary: w) (simp_all add: Let_def)

lemma prepare_dirs_calls:
  "\<exists>new. calls (snd (prepare_dirs e ps w)) = calls w @ new
         \<and> (\<forall>ev\<in>set new. kind ev = PrepareDir)"
proof (induction ps arbitrary: w)
  case Nil
  show ?case by simp
next
  case (Cons p ps)
  obtain new where "calls (snd (prepare_dirs e ps (emit (FsPrepareDir p 448 AID_ROOT AID_ROOT) w)))
      = calls (emit (FsPrepareDir p 448 AID_ROOT AID_ROOT) w) @ new"
    and "\<forall>ev\<in>set new. kind ev = PrepareDir"
    using Cons.IH by blast
  then show ?case
    by (cases "fst (e_fs_prepare_dir e p) \<noteq> 0") (auto simp: Let_def)
qed

lemma hooks_vol:
  "vol (cust_hook e sn cp ct w) = vol w"
  "vol (startup_hook e sn sp cp st ct w) = vol w"
  "vol (update_hook e sn up sp cp ut st ct w) = vol w"
  by (simp_all add: cust_hook_def startup_hook_def update_hook_def Let_def)

lemma cust_hook_calls:
  "\<exists>new. calls (cust_hook e sn cp ct w) = calls w @ new \<and> (\<forall>ev\<in>set new. kind ev = FileProbe)"
  by (simp add: cust_hook_def Let_def)

lemma startup_hook_calls:
  "\<exists>new. calls (startup_hook e sn sp cp st ct w) = calls w @ new \<and> (\<forall>ev\<in>set new. kind ev = FileProbe)"
proof -
  obtain n1 where 1: "calls (cust_hook e sn cp ct w) = calls w @ n1" "\<forall>ev\<in>set n1. kind ev = FileProbe"
    using cust_hook_calls by blast
  obtain n2 where 2: "calls (cust_hook e sn cp ct (emit (Access sp F_OK) w)) = calls (emit (Access sp F_OK) w) @ n2"
     "\<forall>ev\<in>set n2. kind ev = FileProbe"
    using cust_hook_calls by blast
  show ?thesis using 1 2 by (auto simp: startup_hook_def Let_def)
qed

lemma update_hook_calls:
  "\<exists>new. calls (update_hook e sn up sp cp ut st ct w) = calls w @ new \<and> (\<forall>ev\<in>set new. kind ev = FileProbe)"
proof -
  obtain n1 where 1: "calls (startup_hook e sn sp cp st ct w) = calls w @ n1" "\<forall>ev\<in>set n1. kind ev = FileProbe"
    using startup_hook_calls by blast
  obtain n2 where 2: "calls (startup_hook e sn sp cp st ct (emit (Access up F_OK) w)) = calls (emit (Access up F_OK) w) @ n2"
     "\<forall>ev\<in>set n2. kind ev = FileProbe"
    using startup_hook_calls by blast
  show ?thesis using 1 2 by (auto simp: update_hook_def Let_def)
qed


lemma TEMP_FAILURE_RETRY_returns:
  "\<not> (fst (f (n + d)) = - 1 \<and> snd (f (n + d)) = EINTR)
   \<Longrightarrow> \<exists>rc err k. TEMP_FAILURE_RETRY f n = Some (rc, err, k)"
proof (induction d arbitrary: n)
  case 0
  then show ?case by (subst TEMP_FAILURE_RETRY.simps) auto
next
  case (Suc d)
  from Suc.prems have "\<not> (fst (f (Suc n + d)) = - 1 \<and> snd (f (Suc n + d)) = EINTR)" by simp
  from Suc.IH [OF this] show ?case by (subst TEMP_FAILURE_RETRY.simps) auto
qed

lemma TEMP_FAILURE_RETRY_Some:
  assumes "TEMP_FAILURE_RETRY f n = Some y"
  shows "\<exists>k. \<not> (fst (f k) = - 1 \<and> snd (f k) = EINTR)"
proof (rule TEMP_FAILURE_RETRY.raw_induct
    [where P = "\<lambda>f n y. \<exists>k. \<not> (fst (f k) = - 1 \<and> snd (f k) = EINTR)", OF _ assms])
  fix g :: "(nat \<Rightarrow> int \<times> int) \<Rightarrow> nat \<Rightarrow> (int \<times> int \<times> nat) option"
    and f :: "nat \<Rightarrow> int \<times> int" and n :: nat and y :: "int \<times> int \<times> nat"
  assume IH: "\<And>f n y. g f n = Some y \<Longrightarrow> \<exists>k. \<not> (fst (f k) = - 1 \<and> snd (f k) = EINTR)"
    and eq: "(if fst (f n) = - 1 \<and> snd (f n) = EINTR then g f (Suc n)
              else Some (fst (f n), snd (f n), Suc n)) = Some y"
  show "\<exists>k. \<not> (fst (f k) = - 1 \<and> snd (f k) = EINTR)"
  proof (cases "fst (f n) = - 1 \<and> snd (f n) = EINTR")
    case True
    with eq have "g f (Suc n) = Some y" by simp
    then show ?thesis by (rule IH)
  next
    case False
    then show ?thesis by blast
  qed
qed

lemma waitForFuse_frame:
  assumes "waitForFuse e p b n w = Some w'"
  shows "vol w' = vol w \<and> props w' = props w \<and>
     (\<exists>new. calls w' = calls w @ new \<and> (\<forall>ev\<in>set new. kind ev = Bridge))"
proof (rule waitForFuse.raw_induct
    [where P = "\<lambda>e p b n w w'. vol w' = vol w \<and> props w' = props w \<and>
     (\<exists>new. calls w' = calls w @ new \<and> (\<forall>ev\<in>set new. kind ev = Bridge))",
     OF _ assms])
  fix wf :: "env \<Rightarrow> string \<Rightarrow> dev_t \<Rightarrow> nat \<Rightarrow> world \<Rightarrow> world option"
    and e :: env and p :: string and b :: dev_t and n :: nat and w w' :: world
  assume IH: "\<And>e p b n w w'. wf e p b n w = Some w' \<Longrightarrow>
       vol w' = vol w \<and> props w' = props w \<and>
       (\<exists>new. calls w' = calls w @ new \<and> (\<forall>ev\<in>set new. kind ev = Bridge))"
    and eq: "(if b = e_GetDevice e p n
              then wf e p b (Suc n) (emit (Usleep 50000) (emit (GetDevice p) w))
              else Some (emit (GetDevice p) w)) = Some w'"
  show "vol w' = vol w \<and> props w' = props w \<and>
       (\<exists>new. calls w' = calls w @ new \<and> (\<forall>ev\<in>set new. kind ev = Bridge))"
  proof (cases "b = e_GetDevice e p n")
    case True
    with eq have "wf e p b (Suc n) (emit (Usleep 50000) (emit (GetDevice p) w)) = Some w'" by simp
    from IH [OF this] show ?thesis by auto
  next
    case False
    with eq show ?thesis by auto
  qed
qed

lemma waitForFuse_returns:
  "b \<noteq> e_GetDevice e p (n + d) \<Longrightarrow> \<exists>w'. waitForFuse e p b n w = Some w'"
proof (induction d arbitrary: n w)
  case 0
  then show ?case by (subst waitForFuse.simps) auto
next
  case (Suc d)
  from Suc.prems have "b \<noteq> e_GetDevice e p (Suc n + d)" by simp
  from Suc.IH [OF this] show ?case by (subst waitForFuse.simps) auto
qed

lemma initAsecStage_frame:
  assumes "initAsecStage e w = Some (r, w')"
  shows "vol w' = vol w \<and> props w' = props w \<and>
     (\<exists>new. calls w' = calls w @ new \<and> (\<forall>ev\<in>set new. kind ev = FileProbe \<or> kind ev = Staging))"
  using assms
  by (auto simp: initAsecStage_def Let_def split: option.splits if_splits)

lemma initAsecStage_returns:
  assumes "\<not> (fst (e_mkdir e (mRawPath (vol w) @ ''/.android_secure'') d) = - 1
             \<and> snd (e_mkdir e (mRawPath (vol w) @ ''/.android_secure'') d) = EINTR)"
  shows "\<exists>r w'. initAsecStage e w = Some (r, w')"
proof -
  have "\<exists>rc err k. TEMP_FAILURE_RETRY (e_mkdir e (mRawPath (vol w) @ ''/.android_secure'')) 0
                     = Some (rc, err, k)"
    using assms
      TEMP_FAILURE_RETRY_returns [where f = "e_mkdir e (mRawPath (vol w) @ ''/.android_secure'')"
                                    and n = 0 and d = d]
    by simp
  then show ?thesis by (auto simp: initAsecStage_def Let_def)
qed

lemma spinUpFuse_not_visible:
  "getMountFlags (vol w) AND kVisible = 0 \<Longrightarrow> spinUpFuse e sn w = Some (Return OK, w)"
  by (simp add: spinUpFuse_def)

lemma spinUpFuse_visible:
  assumes "spinUpFuse e sn w = Some (r, w')" and vis: "getMountFlags (vol w) AND kVisible \<noteq> 0"
  shows "props w' = props w \<and> vol w' = (vol w)\<lparr>mFusePid := fst (e_fork e)\<rparr> \<and>
     (\<exists>new. calls w' = calls w @ GetDevice (mFuseWrite (vol w)) # Fork # new
            \<and> (\<forall>ev\<in>set new. kind ev = Bridge))"
proof -
  let ?w2 = "emit Fork (emit (GetDevice (mFuseWrite (vol w))) w\<lparr>vol := (vol w)\<lparr>mFusePid := fst (e_fork e)\<rparr>\<rparr>)"
  show ?thesis
  proof (cases "fst (e_fork e) = 0 \<or> fst (e_fork e) = - 1")
    case True
    with assms show ?thesis
      by (auto simp: spinUpFuse_def Let_def split: option.splits if_splits)
  next
    case no: False
    with assms obtain w3 where
      wf: "waitForFuse e (mFuseWrite (vol w)) (e_GetDevice e (mFuseWrite (vol w)) 0) 1 ?w2 = Some w3"
      and res: "r = Return OK" "w' = w3"
      by (auto simp: spinUpFuse_def Let_def split: option.splits if_splits)
    from waitForFuse_frame [OF wf] obtain new where
      "vol w3 = vol ?w2" "props w3 = props ?w2" "calls w3 = calls ?w2 @ new" "\<forall>ev\<in>set new. kind ev = Bridge"
      by blast
    with res show ?thesis by auto
  qed
qed

lemma spinUpFuse_frame:
  assumes "spinUpFuse e sn w = Some (r, w')"
  shows "props w' = props w \<and>
     (\<exists>new. calls w' = calls w @ new \<and> (\<forall>ev\<in>set new. kind ev = Bridge)
        \<and> mFusePid (vol w') = (if Fork \<in> set new then fst (e_fork e) else mFusePid (vol w))
        \<and> vol w' = (vol w)\<lparr>mFusePid := mFusePid (vol w')\<rparr>)"
proof (cases "getMountFlags (vol w) AND kVisible = 0")
  case True
  with assms have "w' = w" by (simp add: spinUpFuse_not_visible)
  then show ?thesis by simp
next
  case False
  from spinUpFuse_visible [OF assms False] obtain new where
    "props w' = props w" "vol w' = (vol w)\<lparr>mFusePid := fst (e_fork e)\<rparr>"
    "calls w' = calls w @ GetDevice (mFuseWrite (vol w)) # Fork # new" "\<forall>ev\<in>set new. kind ev = Bridge"
    by blast
  then show ?thesis by (intro conjI exI [where x = "GetDevice (mFuseWrite (vol w)) # Fork # new"]) auto
qed

lemma uevent_handled_frame:
  assumes "uevent_handled e sn w = Some (r, w')"
  shows "props w' = props w \<and>
     (\<exists>new. calls w' = calls w @ new
        \<and> (\<forall>ev\<in>set new. kind ev = FileProbe \<or> kind ev = Staging \<or> kind ev = Bridge)
        \<and> (getMountFlags (vol w) AND kVisible = 0 \<longrightarrow> (\<forall>ev\<in>set new. kind ev \<noteq> Bridge))
        \<and> mFusePid (vol w') = (if Fork \<in> set new then fst (e_fork e) else mFusePid (vol w))
        \<and> vol w' = (vol w)\<lparr>mFusePid := mFusePid (vol w')\<rparr>)"
proof -
  obtain w1 n1 where
    s: "spinUpFuse e sn w1 = Some (r, w')" and v1: "vol w1 = vol w" and p1: "props w1 = props w"
    and c1: "calls w1 = calls w @ n1" and k1: "\<forall>ev\<in>set n1. kind ev = FileProbe \<or> kind ev = Staging"
  proof (cases "getMountFlags (vol w) AND kPrimary \<noteq> 0")
    case True
    with assms obtain res w1 where i: "initAsecStage e w = Some (res, w1)"
      and s: "spinUpFuse e sn w1 = Some (r, w')"
      by (auto simp: uevent_handled_def split: option.splits)
    from initAsecStage_frame [OF i] s that show ?thesis by blast
  next
    case False
    with assms have "spinUpFuse e sn w = Some (r, w')" by (simp add: uevent_handled_def)
    with that [of w "[]"] show ?thesis by simp
  qed
  from spinUpFuse_frame [OF s] obtain n2 where
    p2: "props w' = props w1" and c2: "calls w' = calls w1 @ n2" and k2: "\<forall>ev\<in>set n2. kind ev = Bridge"
    and f2: "mFusePid (vol w') = (if Fork \<in> set n2 then fst (e_fork e) else mFusePid (vol w1))"
    and v2: "vol w' = (vol w1)\<lparr>mFusePid := mFusePid (vol w')\<rparr>"
    by blast
  have nv: "getMountFlags (vol w) AND kVisible = 0 \<Longrightarrow> n2 = []"
    using s c2 v1 by (simp add: spinUpFuse_not_visible)
  have nf: "Fork \<notin> set n1" using k1 by fastforce
  show ?thesis
    using p1 p2 c1 c2 k1 k2 f2 v2 v1 nv nf
    by (intro conjI exI [where x = "n1 @ n2"]) auto
qed

lemma property_get_bool_cong: "props a = props b \<Longrightarrow> property_get_bool a k d = property_get_bool b k d"
  by (simp add: property_get_bool_def property_get_def)

lemma assign_paths_vol: "vol (assign_paths sn w) =
     (vol w)\<lparr>mRawPath := ''/mnt/media_rw/'' @ sn,
             mFuseDefault := ''/mnt/runtime/default/'' @ sn,
             mFuseRead := ''/mnt/runtime/read/'' @ sn,
             mFuseWrite := ''/mnt/runtime/write/'' @ sn\<rparr>"
  and assign_paths_props [simp]: "props (assign_paths sn w) = props w"
  and assign_paths_calls [simp]: "calls (assign_paths sn w) = calls w"
  by (simp_all add: assign_paths_def)

lemma report_paths_vol [simp]: "vol (report_paths sn w) = vol w"
  and report_paths_props [simp]: "props (report_paths sn w) = props w"
  and report_paths_calls: "calls (report_paths sn w) = calls w @
       [SetInternalPath (mRawPath (vol w)),
        SetPath (if getMountFlags (vol w) AND kVisible \<noteq> 0 then ''/storage/'' @ sn else mRawPath (vol w))]"
  by (simp_all add: report_paths_def Let_def)

lemma mount_and_hooks_frame:
  assumes "mount_and_hooks e ntfs sn up sp cp ut st ct w = Some (r, w')"
  shows "\<exists>new. calls w' = calls w @ new
        \<and> (\<forall>ev\<in>set new. kind ev = NativeMount \<or> kind ev = FileProbe \<or> kind ev = Staging \<or> kind ev = Bridge)
        \<and> (getMountFlags (vol w) AND kVisible = 0 \<longrightarrow> (\<forall>ev\<in>set new. kind ev \<noteq> Bridge))
        \<and> mFusePid (vol w') = (if Fork \<in> set new then fst (e_fork e) else mFusePid (vol w))
        \<and> vol w' = (vol w)\<lparr>mFusePid := mFusePid (vol w')\<rparr>"
proof -
  define m where "m = (if ntfs \<noteq> 0
        then NtfsDoMount (mDevPath (vol w)) (mRawPath (vol w))
               (e_Ntfs_doMount e (mDevPath (vol w)) (mRawPath (vol w)))
        else VfatMount (mDevPath (vol w)) (mRawPath (vol w)))"
  have km: "kind m = NativeMount" by (simp add: m_def)
  have mf: "m \<noteq> Fork" using km by auto
  show ?thesis
  proof (cases "ntfs = 0 \<and> e_vfat_Mount e (mDevPath (vol w)) (mRawPath (vol w)) \<noteq> 0")
    case True
    with assms have "w' = emit m w" by (simp add: mount_and_hooks_def Let_def m_def)
    then show ?thesis using km mf by (intro exI [where x = "[m]"]) simp
  next
    case False
    define wh where "wh = update_hook e sn up sp cp ut st ct (emit m w)"
    from False assms have u: "uevent_handled e sn wh = Some (r, w')"
      by (auto simp: mount_and_hooks_def Let_def m_def wh_def split: if_splits)
    obtain n1 where c1: "calls wh = calls (emit m w) @ n1" and k1: "\<forall>ev\<in>set n1. kind ev = FileProbe"
      unfolding wh_def using update_hook_calls by blast
    have v1: "vol wh = vol w" by (simp add: wh_def hooks_vol)
    from uevent_handled_frame [OF u] obtain n2 where
      c2: "calls w' = calls wh @ n2"
      and k2: "\<forall>ev\<in>set n2. kind ev = FileProbe \<or> kind ev = Staging \<or> kind ev = Bridge"
      and b2: "getMountFlags (vol wh) AND kVisible = 0 \<longrightarrow> (\<forall>ev\<in>set n2. kind ev \<noteq> Bridge)"
      and f2: "mFusePid (vol w') = (if Fork \<in> set n2 then fst (e_fork e) else mFusePid (vol wh))"
      and v2: "vol w' = (vol wh)\<lparr>mFusePid := mFusePid (vol w')\<rparr>"
      by blast
    have nf: "Fork \<notin> set n1" using k1 by fastforce
    show ?thesis
      using c1 c2 k1 k2 b2 f2 v2 v1 km mf nf
      by (intro exI [where x = "m # n1 @ n2"]) auto
  qed
qed

lemma doMount_probed_frame:
  assumes "doMount_probed e ntfs w = Some (r, w')"
  shows "\<exists>new. calls w' = calls w @ new
        \<and> (\<forall>ev\<in>set new. kind ev = Paths \<or> kind ev = PrepareDir \<or> kind ev = NativeMount
               \<or> kind ev = FileProbe \<or> kind ev = Staging \<or> kind ev = Bridge)
        \<and> (getMountFlags (vol w) AND kVisible = 0 \<longrightarrow> (\<forall>ev\<in>set new. kind ev \<noteq> Bridge))
        \<and> mFusePid (vol w') = (if Fork \<in> set new then fst (e_fork e) else mFusePid (vol w))
        \<and> vol w' = (vol w)\<lparr>mRawPath := ''/mnt/media_rw/'' @ stableName (vol w),
                           mFuseDefault := ''/mnt/runtime/default/'' @ stableName (vol w),
                           mFuseRead := ''/mnt/runtime/read/'' @ stableName (vol w),
                           mFuseWrite := ''/mnt/runtime/write/'' @ stableName (vol w),
                           mFusePid := mFusePid (vol w')\<rparr>"
proof -
  define sn where "sn = stableName (vol w)"
  define w2 where "w2 = report_paths sn (assign_paths sn w)"
  define ps where "ps = [mRawPath (vol w2), mFuseDefault (vol w2), mFuseRead (vol w2), mFuseWrite (vol w2)]"
  define w3 where "w3 = snd (prepare_dirs e ps w2)"
  have unf: "doMount_probed e ntfs w =
      (case fst (prepare_dirs e ps w2) of
         Some err \<Rightarrow> Some (Return (- err), w3)
       | None \<Rightarrow>
           mount_and_hooks e ntfs sn (mRawPath (vol (assign_paths sn w)) @ ''/OTA/update.zip'')
             (mRawPath (vol (assign_paths sn w)) @ ''/startup/start_up.sh'')
             (mRawPath (vol (assign_paths sn w)) @ ''/cust/cust_update.zip'')
             (property_get_bool (assign_paths sn w) ''sys.update.trigger'' 0)
             (property_get_bool (assign_paths sn w) ''sys.startup.trigger'' 0)
             (property_get_bool (assign_paths sn w) ''sys.cust.trigger'' 0) w3)"
    unfolding doMount_probed_def Let_def sn_def w2_def ps_def w3_def by (rule refl)
  have v2: "vol w2 = vol (assign_paths sn w)" and c2: "calls w2 = calls w @
       [SetInternalPath (mRawPath (vol (assign_paths sn w))),
        SetPath (if getMountFlags (vol (assign_paths sn w)) AND kVisible \<noteq> 0 then ''/storage/'' @ sn
                 else mRawPath (vol (assign_paths sn w)))]"
    by (simp_all add: w2_def report_paths_calls)
  have v3: "vol w3 = vol (assign_paths sn w)" by (simp add: w3_def prepare_dirs_vol v2)
  obtain n3 where c3: "calls w3 = calls w2 @ n3" and k3: "\<forall>ev\<in>set n3. kind ev = PrepareDir"
    unfolding w3_def using prepare_dirs_calls by blast
  have fl: "getMountFlags (vol (assign_paths sn w)) = getMountFlags (vol w)"
    and pid: "mFusePid (vol (assign_paths sn w)) = mFusePid (vol w)"
    by (simp_all add: assign_paths_vol getMountFlags_def)
  have nf3: "Fork \<notin> set n3" using k3 by fastforce
  show ?thesis
  proof (cases "fst (prepare_dirs e ps w2)")
    case (Some err)
    with assms unf have "w' = w3" by simp
    then show ?thesis
      using c2 c3 k3 v3 nf3 pid
      by (intro exI [where x = "[SetInternalPath (mRawPath (vol (assign_paths sn w))),
        SetPath (if getMountFlags (vol (assign_paths sn w)) AND kVisible \<noteq> 0 then ''/storage/'' @ sn
                 else mRawPath (vol (assign_paths sn w)))] @ n3"])
        (auto simp: assign_paths_vol sn_def)
  next
    case None
    with assms unf obtain up sp cp ut st ct where
      "mount_and_hooks e ntfs sn up sp cp ut st ct w3 = Some (r, w')"
      by simp
    from mount_and_hooks_frame [OF this] obtain n4 where
      c4: "calls w' = calls w3 @ n4"
      and k4: "\<forall>ev\<in>set n4. kind ev = NativeMount \<or> kind ev = FileProbe \<or> kind ev = Staging \<or> kind ev = Bridge"
      and b4: "getMountFlags (vol w3) AND kVisible = 0 \<longrightarrow> (\<forall>ev\<in>set n4. kind ev \<noteq> Bridge)"
      and f4: "mFusePid (vol w') = (if Fork \<in> set n4 then fst (e_fork e) else mFusePid (vol w3))"
      and v4: "vol w' = (vol w3)\<lparr>mFusePid := mFusePid (vol w')\<rparr>"
      by blast
    show ?thesis
      using c2 c3 c4 k3 k4 b4 f4 v4 v3 nf3 pid fl
      by (intro exI [where x = "[SetInternalPath (mRawPath (vol (assign_paths sn w))),
        SetPath (if getMountFlags (vol (assign_paths sn w)) AND kVisible \<noteq> 0 then ''/storage/'' @ sn
                 else mRawPath (vol (assign_paths sn w)))] @ n3 @ n4"])
        (auto simp: assign_paths_vol sn_def)
  qed
qed

lemma doMount_unfold:
  "doMount e w =
     (if mFsType (vol (snd (readMetadata e w))) \<noteq> ''vfat''
         \<and> mFsType (vol (snd (readMetadata e w))) \<noteq> ''ntfs''
      then Some (Return (- EIO), snd (readMetadata e w))
      else if e_vfat_Check e (mDevPath (vol w)) = 0
      then doMount_probed e 0 (emit (VfatCheck (mDevPath (vol w))) (snd (readMetadata e w)))
      else if e_Ntfs_check e (mDevPath (vol w)) = 0
      then doMount_probed e 1 (emit (NtfsCheck (mDevPath (vol w)))
                                 (emit (VfatCheck (mDevPath (vol w))) (snd (readMetadata e w))))
      else Some (Return (- EIO), emit (NtfsCheck (mDevPath (vol w)))
                                   (emit (VfatCheck (mDevPath (vol w))) (snd (readMetadata e w)))))"
  by (simp add: doMount_def Let_def readMetadata_vol)

lemma readMetadata_kinds:
  "\<exists>new. calls (snd (readMetadata e w)) = calls w @ new \<and> (\<forall>ev\<in>set new. kind ev = Metadata)"
  by (simp add: readMetadata_calls)

lemma readMetadata_keeps:
  "mFusePid (vol (snd (readMetadata e w))) = mFusePid (vol w)"
  "getMountFlags (vol (snd (readMetadata e w))) = getMountFlags (vol w)"
  "getId (vol (snd (readMetadata e w))) = getId (vol w)"
  "mRawPath (vol (snd (readMetadata e w))) = mRawPath (vol w)"
  "mFuseDefault (vol (snd (readMetadata e w))) = mFuseDefault (vol w)"
  "mFuseRead (vol (snd (readMetadata e w))) = mFuseRead (vol w)"
  "mFuseWrite (vol (snd (readMetadata e w))) = mFuseWrite (vol w)"
  by (simp_all add: readMetadata_vol getMountFlags_def getId_def)

text \<open>What a completed mount call changed.\<close>

lemma doMount_frame:
  assumes "doMount e w = Some (r, w')"
  shows "\<exists>new. calls w' = calls w @ new
        \<and> (getMountFlags (vol w) AND kVisible = 0 \<longrightarrow> (\<forall>ev\<in>set new. kind ev \<noteq> Bridge))
        \<and> (\<forall>ev\<in>set new. kind ev \<noteq> Teardown \<and> kind ev \<noteq> Format)
        \<and> mFusePid (vol w') = (if Fork \<in> set new then fst (e_fork e) else mFusePid (vol w))
        \<and> (r = Return (- EIO) \<and> vol w' = vol (snd (readMetadata e w))
            \<or> vol w' = (vol (snd (readMetadata e w)))
                 \<lparr>mRawPath := ''/mnt/media_rw/'' @ stableName (vol (snd (readMetadata e w))),
                  mFuseDefault := ''/mnt/runtime/default/'' @ stableName (vol (snd (readMetadata e w))),
                  mFuseRead := ''/mnt/runtime/read/'' @ stableName (vol (snd (readMetadata e w))),
                  mFuseWrite := ''/mnt/runtime/write/'' @ stableName (vol (snd (readMetadata e w))),
                  mFusePid := mFusePid (vol w')\<rparr>)"
proof -
  define w1 where "w1 = snd (readMetadata e w)"
  define dp where "dp = mDevPath (vol w)"
  obtain n1 where c1: "calls w1 = calls w @ n1" and k1: "\<forall>ev\<in>set n1. kind ev = Metadata"
    unfolding w1_def using readMetadata_kinds by blast
  have nf1: "Fork \<notin> set n1" using k1 by fastforce
  have keep: "mFusePid (vol w1) = mFusePid (vol w)" "getMountFlags (vol w1) = getMountFlags (vol w)"
    by (simp_all add: w1_def readMetadata_keeps)
  consider (early) wx cs where "r = Return (- EIO)" "w' = wx" "vol wx = vol w1" "calls wx = calls w1 @ cs"
      "\<forall>ev\<in>set cs. kind ev = Check"
    | (probed) n wx cs where "doMount_probed e n wx = Some (r, w')" "vol wx = vol w1"
      "calls wx = calls w1 @ cs" "\<forall>ev\<in>set cs. kind ev = Check"
  proof (cases "mFsType (vol w1) \<noteq> ''vfat'' \<and> mFsType (vol w1) \<noteq> ''ntfs''")
    case True
    with assms have "r = Return (- EIO)" "w' = w1"
      by (auto simp: doMount_unfold w1_def split: if_splits)
    then show ?thesis using early [of w1 "[]"] by simp
  next
    case sup: False
    show ?thesis
    proof (cases "e_vfat_Check e dp = 0")
      case True
      with sup assms have "doMount_probed e 0 (emit (VfatCheck dp) w1) = Some (r, w')"
        by (auto simp: doMount_unfold w1_def dp_def split: if_splits)
      then show ?thesis using probed [of 0 "emit (VfatCheck dp) w1" "[VfatCheck dp]"] by simp
    next
      case vf: False
      show ?thesis
      proof (cases "e_Ntfs_check e dp = 0")
        case True
        with sup vf assms have "doMount_probed e 1 (emit (NtfsCheck dp) (emit (VfatCheck dp) w1)) = Some (r, w')"
          by (auto simp: doMount_unfold w1_def dp_def split: if_splits)
        then show ?thesis
          using probed [of 1 "emit (NtfsCheck dp) (emit (VfatCheck dp) w1)" "[VfatCheck dp, NtfsCheck dp]"]
          by simp
      next
        case False
        with sup vf assms have "r = Return (- EIO)" "w' = emit (NtfsCheck dp) (emit (VfatCheck dp) w1)"
          by (auto simp: doMount_unfold w1_def dp_def split: if_splits)
        then show ?thesis
          using early [of "emit (NtfsCheck dp) (emit (VfatCheck dp) w1)" "[VfatCheck dp, NtfsCheck dp]"]
          by simp
      qed
    qed
  qed
  then show ?thesis
  proof cases
    case early
    have nfc: "Fork \<notin> set cs" using early(5) by fastforce
    show ?thesis
      unfolding w1_def [symmetric]
      using early c1 k1 nf1 nfc keep
      by (intro exI [where x = "n1 @ cs"]) auto
  next
    case probed
    have nfc: "Fork \<notin> set cs" using probed(4) by fastforce
    from doMount_probed_frame [OF probed(1)] obtain n2 where
      c2: "calls w' = calls wx @ n2"
      and k2: "\<forall>ev\<in>set n2. kind ev = Paths \<or> kind ev = PrepareDir \<or> kind ev = NativeMount
               \<or> kind ev = FileProbe \<or> kind ev = Staging \<or> kind ev = Bridge"
      and b2: "getMountFlags (vol wx) AND kVisible = 0 \<longrightarrow> (\<forall>ev\<in>set n2. kind ev \<noteq> Bridge)"
      and f2: "mFusePid (vol w') = (if Fork \<in> set n2 then fst (e_fork e) else mFusePid (vol wx))"
      and v2: "vol w' = (vol wx)\<lparr>mRawPath := ''/mnt/media_rw/'' @ stableName (vol wx),
                           mFuseDefault := ''/mnt/runtime/default/'' @ stableName (vol wx),
                           mFuseRead := ''/mnt/runtime/read/'' @ stableName (vol wx),
                           mFuseWrite := ''/mnt/runtime/write/'' @ stableName (vol wx),
                           mFusePid := mFusePid (vol w')\<rparr>"
      by blast
    show ?thesis
      unfolding w1_def [symmetric]
      using probed(2,3,4) c1 k1 nf1 nfc keep c2 k2 b2 f2 v2
      by (intro exI [where x = "n1 @ cs @ n2"]) auto
  qed
qed

subsection \<open>Runs that reach the end\<close>

lemma prepare_dirs_ok:
  "(\<forall>p\<in>set ps. fst (e_fs_prepare_dir e p) = 0) \<Longrightarrow>
     fst (prepare_dirs e ps w) = None \<and>
     calls (snd (prepare_dirs e ps w)) = calls w @ map (\<lambda>p. FsPrepareDir p 448 AID_ROOT AID_ROOT) ps"
  by (induction ps arbitrary: w) (simp_all add: Let_def)

lemma doMount_probed_unfold:
  "doMount_probed e ntfs w =
    (case fst (prepare_dirs e [''/mnt/media_rw/'' @ stableName (vol w),
                               ''/mnt/runtime/default/'' @ stableName (vol w),
                               ''/mnt/runtime/read/'' @ stableName (vol w),
                               ''/mnt/runtime/write/'' @ stableName (vol w)]
                 (report_paths (stableName (vol w)) (assign_paths (stableName (vol w)) w))) of
       Some err \<Rightarrow> Some (Return (- err),
          snd (prepare_dirs e [''/mnt/media_rw/'' @ stableName (vol w),
                               ''/mnt/runtime/default/'' @ stableName (vol w),
                               ''/mnt/runtime/read/'' @ stableName (vol w),
                               ''/mnt/runtime/write/'' @ stableName (vol w)]
                 (report_paths (stableName (vol w)) (assign_paths (stableName (vol w)) w))))
     | None \<Rightarrow>
         mount_and_hooks e ntfs (stableName (vol w))
           ((''/mnt/media_rw/'' @ stableName (vol w)) @ ''/OTA/update.zip'')
           ((''/mnt/media_rw/'' @ stableName (vol w)) @ ''/startup/start_up.sh'')
           ((''/mnt/media_rw/'' @ stableName (vol w)) @ ''/cust/cust_update.zip'')
           (property_get_bool w ''sys.update.trigger'' 0)
           (property_get_bool w ''sys.startup.trigger'' 0)
           (property_get_bool w ''sys.cust.trigger'' 0)
           (snd (prepare_dirs e [''/mnt/media_rw/'' @ stableName (vol w),
                               ''/mnt/runtime/default/'' @ stableName (vol w),
                               ''/mnt/runtime/read/'' @ stableName (vol w),
                               ''/mnt/runtime/write/'' @ stableName (vol w)]
                 (report_paths (stableName (vol w)) (assign_paths (stableName (vol w)) w)))))"
proof -
  have pg: "\<And>k. property_get_bool (assign_paths (stableName (vol w)) w) k 0 = property_get_bool w k 0"
    by (rule property_get_bool_cong) simp
  show ?thesis
    unfolding doMount_probed_def Let_def
    by (simp add: assign_paths_vol pg cong: option.case_cong del: prepare_dirs.simps)
qed

lemma update_hook_none_fires:
  assumes "ut \<noteq> 1" "st \<noteq> 1" "ct \<noteq> 1"
    and "e_access e up F_OK \<noteq> 0" "e_access e sp F_OK \<noteq> 0" "e_access e cp F_OK \<noteq> 0"
  shows "update_hook e sn up sp cp ut st ct w
           = emit (Access cp F_OK) (emit (Access sp F_OK) (emit (Access up F_OK) w))"
  using assms by (simp add: update_hook_def startup_hook_def cust_hook_def Let_def)

lemma uevent_handled_not_visible:
  assumes nv: "getMountFlags (vol w) AND kVisible = 0"
    and asec: "getMountFlags (vol w) AND kPrimary \<noteq> 0 \<Longrightarrow>
       \<not> (fst (e_mkdir e (mRawPath (vol w) @ ''/.android_secure'') d) = - 1
          \<and> snd (e_mkdir e (mRawPath (vol w) @ ''/.android_secure'') d) = EINTR)"
  shows "\<exists>w'. uevent_handled e sn w = Some (Return OK, w') \<and> vol w' = vol w \<and> props w' = props w
          \<and> (\<exists>new. calls w' = calls w @ new \<and> (\<forall>ev\<in>set new. kind ev = FileProbe \<or> kind ev = Staging))"
proof (cases "getMountFlags (vol w) AND kPrimary \<noteq> 0")
  case True
  from initAsecStage_returns [OF asec [OF True]] obtain r w1 where i: "initAsecStage e w = Some (r, w1)"
    by blast
  from initAsecStage_frame [OF i] obtain new where
    f: "vol w1 = vol w" "props w1 = props w" "calls w1 = calls w @ new"
       "\<forall>ev\<in>set new. kind ev = FileProbe \<or> kind ev = Staging"
    by blast
  have "uevent_handled e sn w = Some (Return OK, w1)"
    using True i nv f(1) by (simp add: uevent_handled_def spinUpFuse_not_visible)
  with f show ?thesis by blast
next
  case False
  then have "uevent_handled e sn w = Some (Return OK, w)"
    using nv by (simp add: uevent_handled_def spinUpFuse_not_visible)
  then show ?thesis by simp
qed

lemma uevent_handled_plain:
  "getMountFlags (vol w) AND kPrimary = 0 \<Longrightarrow> uevent_handled e sn w = spinUpFuse e sn w"
  by (simp add: uevent_handled_def)

lemma spinUpFuse_fork_fails:
  assumes "getMountFlags (vol w) AND kVisible \<noteq> 0" and "fst (e_fork e) = - 1"
  shows "spinUpFuse e sn w =
     Some (Return (- snd (e_fork e)),
           emit Fork (emit (GetDevice (mFuseWrite (vol w))) w\<lparr>vol := (vol w)\<lparr>mFusePid := - 1\<rparr>\<rparr>))"
  using assms by (simp add: spinUpFuse_def Let_def)

lemma spinUpFuse_parent_returns:
  assumes vis: "getMountFlags (vol w) AND kVisible \<noteq> 0"
    and pid: "fst (e_fork e) \<noteq> 0" "fst (e_fork e) \<noteq> - 1"
    and up: "e_GetDevice e (mFuseWrite (vol w)) 0 \<noteq> e_GetDevice e (mFuseWrite (vol w)) (Suc d)"
  shows "\<exists>w'. spinUpFuse e sn w = Some (Return OK, w')"
proof -
  from up have "e_GetDevice e (mFuseWrite (vol w)) 0 \<noteq> e_GetDevice e (mFuseWrite (vol w)) (1 + d)"
    by simp
  from waitForFuse_returns [OF this, of "emit Fork (emit (GetDevice (mFuseWrite (vol w))) w\<lparr>vol := (vol w)\<lparr>mFusePid := fst (e_fork e)\<rparr>\<rparr>)"]
  obtain w3 where "waitForFuse e (mFuseWrite (vol w)) (e_GetDevice e (mFuseWrite (vol w)) 0) 1
      (emit Fork (emit (GetDevice (mFuseWrite (vol w))) w\<lparr>vol := (vol w)\<lparr>mFusePid := fst (e_fork e)\<rparr>\<rparr>)) = Some w3"
    by blast
  with vis pid show ?thesis by (simp add: spinUpFuse_def Let_def)
qed

text \<open>A mount whose probe, directories and native mount succeed arrives at the hooks
  with this state and this log.\<close>

lemma doMount_to_hooks:
  fixes e w
  defines "m \<equiv> e_ReadMetadataUntrusted e (mDevPath (vol w))"
  defines "dp \<equiv> mDevPath (vol w)"
  defines "w1 \<equiv> snd (readMetadata e w)"
  defines "sn \<equiv> stableName (vol (snd (readMetadata e w)))"
  defines "raw \<equiv> ''/mnt/media_rw/'' @ stableName (vol (snd (readMetadata e w)))"
  assumes sup: "fst (snd m) = ''vfat'' \<or> fst (snd m) = ''ntfs''"
    and probe: "e_vfat_Check e dp = 0 \<and> e_vfat_Mount e dp raw = 0
                \<or> e_vfat_Check e dp \<noteq> 0 \<and> e_Ntfs_check e dp = 0"
    and dirs: "\<And>p. fst (e_fs_prepare_dir e p) = 0"
  shows "\<exists>wm. doMount e w =
            uevent_handled e sn
              (update_hook e sn (raw @ ''/OTA/update.zip'') (raw @ ''/startup/start_up.sh'')
                 (raw @ ''/cust/cust_update.zip'')
                 (property_get_bool w ''sys.update.trigger'' 0)
                 (property_get_bool w ''sys.startup.trigger'' 0)
                 (property_get_bool w ''sys.cust.trigger'' 0) wm)
          \<and> vol wm = vol (assign_paths sn w1) \<and> props wm = props w
          \<and> calls wm = calls w @
              [ReadMetadataUntrusted dp, NotifyEvent VolumeFsTypeChanged (fst (snd m)),
               NotifyEvent VolumeFsUuidChanged (fst (snd (snd m))),
               NotifyEvent VolumeFsLabelChanged (snd (snd (snd m))), VfatCheck dp]
              @ (if e_vfat_Check e dp \<noteq> 0 then [NtfsCheck dp] else [])
              @ [SetInternalPath raw,
                 SetPath (if getMountFlags (vol w) AND kVisible \<noteq> 0 then ''/storage/'' @ sn else raw),
                 FsPrepareDir raw 448 AID_ROOT AID_ROOT,
                 FsPrepareDir (''/mnt/runtime/default/'' @ sn) 448 AID_ROOT AID_ROOT,
                 FsPrepareDir (''/mnt/runtime/read/'' @ sn) 448 AID_ROOT AID_ROOT,
                 FsPrepareDir (''/mnt/runtime/write/'' @ sn) 448 AID_ROOT AID_ROOT,
                 (if e_vfat_Check e dp \<noteq> 0 then NtfsDoMount dp raw (e_Ntfs_doMount e dp raw)
                  else VfatMount dp raw)]"
proof -
  define ntfs :: int where "ntfs = (if e_vfat_Check e dp \<noteq> 0 then 1 else 0)"
  define wc where "wc = (if e_vfat_Check e dp \<noteq> 0 then emit (NtfsCheck dp) (emit (VfatCheck dp) w1)
                         else emit (VfatCheck dp) w1)"
  have ft: "mFsType (vol w1) = fst (snd m)" and dpk: "mDevPath (vol w1) = dp"
    and fl1: "getMountFlags (vol w1) = getMountFlags (vol w)"
    by (simp_all add: w1_def m_def dp_def readMetadata_vol getMountFlags_def)
  have d1: "doMount e w = doMount_probed e ntfs wc"
    using sup probe ft
    by (auto simp: doMount_unfold ntfs_def wc_def w1_def dp_def)
  have vc: "vol wc = vol w1" and pc: "props wc = props w"
    and cc: "calls wc = calls w @
              [ReadMetadataUntrusted dp, NotifyEvent VolumeFsTypeChanged (fst (snd m)),
               NotifyEvent VolumeFsUuidChanged (fst (snd (snd m))),
               NotifyEvent VolumeFsLabelChanged (snd (snd (snd m))), VfatCheck dp]
              @ (if e_vfat_Check e dp \<noteq> 0 then [NtfsCheck dp] else [])"
    by (simp_all add: wc_def w1_def readMetadata_props readMetadata_calls m_def dp_def)
  have snc: "stableName (vol wc) = sn" by (simp add: vc sn_def w1_def)
  define w2 where "w2 = report_paths sn (assign_paths sn wc)"
  define ps where "ps = [raw, ''/mnt/runtime/default/'' @ sn, ''/mnt/runtime/read/'' @ sn,
                         ''/mnt/runtime/write/'' @ sn]"
  define w3 where "w3 = snd (prepare_dirs e ps w2)"
  have "\<forall>p\<in>set ps. fst (e_fs_prepare_dir e p) = 0" using dirs by simp
  from prepare_dirs_ok [OF this, of w2] have
    pd: "fst (prepare_dirs e ps w2) = None"
    and c3: "calls w3 = calls w2 @ map (\<lambda>p. FsPrepareDir p 448 AID_ROOT AID_ROOT) ps"
    by (simp_all add: w3_def)
  have v3: "vol w3 = vol (assign_paths sn w1)"
    by (simp add: w3_def w2_def prepare_dirs_vol assign_paths_vol vc)
  have p3: "props w3 = props w" by (simp add: w3_def w2_def prepare_dirs_props pc)
  have d2: "doMount_probed e ntfs wc =
      mount_and_hooks e ntfs sn (raw @ ''/OTA/update.zip'') (raw @ ''/startup/start_up.sh'')
        (raw @ ''/cust/cust_update.zip'')
        (property_get_bool wc ''sys.update.trigger'' 0)
        (property_get_bool wc ''sys.startup.trigger'' 0)
        (property_get_bool wc ''sys.cust.trigger'' 0) w3"
    using pd unfolding w3_def w2_def ps_def raw_def
    by (simp add: doMount_probed_unfold snc sn_def del: prepare_dirs.simps)
  have pgc: "\<And>k. property_get_bool wc k 0 = property_get_bool w k 0"
    by (rule property_get_bool_cong) (simp add: pc)
  define wm where "wm = emit (if e_vfat_Check e dp \<noteq> 0 then NtfsDoMount dp raw (e_Ntfs_doMount e dp raw)
                  else VfatMount dp raw) w3"
  have raw3: "mRawPath (vol w3) = raw" and dp3: "mDevPath (vol w3) = dp"
    by (simp_all add: v3 assign_paths_vol raw_def sn_def dpk)
  have d3: "mount_and_hooks e ntfs sn up sp cp ut st ct w3
        = uevent_handled e sn (update_hook e sn up sp cp ut st ct wm)" for up sp cp ut st ct
    using probe
    by (auto simp: mount_and_hooks_def Let_def ntfs_def wm_def raw3 dp3)
  have cm: "calls wm = calls w3 @ [if e_vfat_Check e dp \<noteq> 0 then NtfsDoMount dp raw (e_Ntfs_doMount e dp raw)
                  else VfatMount dp raw]"
    by (simp add: wm_def)
  have c2: "calls w2 = calls wc @ [SetInternalPath raw,
                 SetPath (if getMountFlags (vol w) AND kVisible \<noteq> 0 then ''/storage/'' @ sn else raw)]"
    by (simp add: w2_def report_paths_calls assign_paths_vol raw_def sn_def getMountFlags_def vc
        fl1 [unfolded getMountFlags_def])
  have "doMount e w = uevent_handled e sn
              (update_hook e sn (raw @ ''/OTA/update.zip'') (raw @ ''/startup/start_up.sh'')
                 (raw @ ''/cust/cust_update.zip'')
                 (property_get_bool w ''sys.update.trigger'' 0)
                 (property_get_bool w ''sys.startup.trigger'' 0)
                 (property_get_bool w ''sys.cust.trigger'' 0) wm)"
    by (simp add: d1 d2 d3 pgc)
  moreover have "vol wm = vol (assign_paths sn w1)" by (simp add: wm_def v3)
  moreover have "props wm = props w" by (simp add: wm_def p3)
  moreover have "calls wm = calls w @
              [ReadMetadataUntrusted dp, NotifyEvent VolumeFsTypeChanged (fst (snd m)),
               NotifyEvent VolumeFsUuidChanged (fst (snd (snd m))),
               NotifyEvent VolumeFsLabelChanged (snd (snd (snd m))), VfatCheck dp]
              @ (if e_vfat_Check e dp \<noteq> 0 then [NtfsCheck dp] else [])
              @ [SetInternalPath raw,
                 SetPath (if getMountFlags (vol w) AND kVisible \<noteq> 0 then ''/storage/'' @ sn else raw),
                 FsPrepareDir raw 448 AID_ROOT AID_ROOT,
                 FsPrepareDir (''/mnt/runtime/default/'' @ sn) 448 AID_ROOT AID_ROOT,
                 FsPrepareDir (''/mnt/runtime/read/'' @ sn) 448 AID_ROOT AID_ROOT,
                 FsPrepareDir (''/mnt/runtime/write/'' @ sn) 448 AID_ROOT AID_ROOT,
                 (if e_vfat_Check e dp \<noteq> 0 then NtfsDoMount dp raw (e_Ntfs_doMount e dp raw)
                  else VfatMount dp raw)]"
    by (simp add: cm c3 c2 cc ps_def)
  ultimately show ?thesis by blast
qed

subsection \<open>What unmount changes\<close>

lemma reapFuse_idle: "\<not> 0 < mFusePid (vol w) \<Longrightarrow> reapFuse e w = Some w"
  by (simp add: reapFuse_def)

lemma TEMP_FAILURE_RETRY_count:
  assumes "TEMP_FAILURE_RETRY f n = Some y"
  shows "n < snd (snd y)"
proof (rule TEMP_FAILURE_RETRY.raw_induct [where P = "\<lambda>f n y. n < snd (snd y)", OF _ assms])
  fix g :: "(nat \<Rightarrow> int \<times> int) \<Rightarrow> nat \<Rightarrow> (int \<times> int \<times> nat) option"
    and f :: "nat \<Rightarrow> int \<times> int" and n :: nat and y :: "int \<times> int \<times> nat"
  assume IH: "\<And>f n y. g f n = Some y \<Longrightarrow> n < snd (snd y)"
    and eq: "(if fst (f n) = - 1 \<and> snd (f n) = EINTR then g f (Suc n)
              else Some (fst (f n), snd (f n), Suc n)) = Some y"
  show "n < snd (snd y)"
  proof (cases "fst (f n) = - 1 \<and> snd (f n) = EINTR")
    case True
    with eq have "g f (Suc n) = Some y" by simp
    from IH [OF this] show ?thesis by simp
  next
    case False
    with eq show ?thesis by auto
  qed
qed

lemma reapFuse_Some:
  assumes "reapFuse e w = Some w'"
  shows "props w' = props w
     \<and> vol w' = (vol w)\<lparr>mFusePid := (if 0 < mFusePid (vol w) then 0 else mFusePid (vol w))\<rparr>
     \<and> (\<exists>n. calls w' = calls w @
            (if 0 < mFusePid (vol w)
             then Kill (mFusePid (vol w)) SIGTERM (e_kill e (mFusePid (vol w)) SIGTERM)
                    # replicate (Suc n) (Waitpid (mFusePid (vol w)))
             else []))"
proof (cases "0 < mFusePid (vol w)")
  case False
  with assms show ?thesis by (simp add: reapFuse_def)
next
  case True
  with assms obtain rc err k where
    t: "TEMP_FAILURE_RETRY (e_waitpid e (mFusePid (vol w))) 0 = Some (rc, err, k)"
    and w': "w' = (emit (Kill (mFusePid (vol w)) SIGTERM (e_kill e (mFusePid (vol w)) SIGTERM)) w)
          \<lparr>vol := (vol w)\<lparr>mFusePid := 0\<rparr>,
           calls := calls w @ [Kill (mFusePid (vol w)) SIGTERM (e_kill e (mFusePid (vol w)) SIGTERM)]
                      @ replicate k (Waitpid (mFusePid (vol w)))\<rparr>"
    by (auto simp: reapFuse_def Let_def split: option.splits)
  have "k \<noteq> 0"
    using TEMP_FAILURE_RETRY_count [OF t] by simp
  then obtain n where "k = Suc n" by (cases k) auto
  with w' True show ?thesis by (intro conjI exI [where x = n]) simp_all
qed


lemma reapFuse_returns:
  assumes "0 < mFusePid (vol w) \<Longrightarrow>
     \<not> (fst (e_waitpid e (mFusePid (vol w)) d) = - 1 \<and> snd (e_waitpid e (mFusePid (vol w)) d) = EINTR)"
  shows "\<exists>w'. reapFuse e w = Some w'"
proof (cases "0 < mFusePid (vol w)")
  case False
  then show ?thesis by (simp add: reapFuse_def)
next
  case True
  have "\<exists>rc err k. TEMP_FAILURE_RETRY (e_waitpid e (mFusePid (vol w))) 0 = Some (rc, err, k)"
    using assms [OF True]
      TEMP_FAILURE_RETRY_returns [where f = "e_waitpid e (mFusePid (vol w))" and n = 0 and d = d]
    by simp
  then show ?thesis using True by (auto simp: reapFuse_def Let_def)
qed

lemma reapFuse_never:
  assumes "0 < mFusePid (vol w)"
    and "\<And>k. fst (e_waitpid e (mFusePid (vol w)) k) = - 1 \<and> snd (e_waitpid e (mFusePid (vol w)) k) = EINTR"
  shows "reapFuse e w = None"
proof (cases "TEMP_FAILURE_RETRY (e_waitpid e (mFusePid (vol w))) 0")
  case None
  with assms(1) show ?thesis by (simp add: reapFuse_def Let_def)
next
  case (Some y)
  from TEMP_FAILURE_RETRY_Some [OF Some] assms(2) show ?thesis by blast
qed

lemma force_unmount_all_vol [simp]: "vol (force_unmount_all e w) = vol w"
  and force_unmount_all_props [simp]: "props (force_unmount_all e w) = props w"
  and force_unmount_all_calls: "calls (force_unmount_all e w) = calls w @
          [ForceUnmount kAsecPath (e_ForceUnmount e kAsecPath),
           ForceUnmount (mFuseDefault (vol w)) (e_ForceUnmount e (mFuseDefault (vol w))),
           ForceUnmount (mFuseRead (vol w)) (e_ForceUnmount e (mFuseRead (vol w))),
           ForceUnmount (mFuseWrite (vol w)) (e_ForceUnmount e (mFuseWrite (vol w))),
           ForceUnmount (mRawPath (vol w)) (e_ForceUnmount e (mRawPath (vol w))),
           Rmdir (mFuseDefault (vol w)) (e_rmdir e (mFuseDefault (vol w))),
           Rmdir (mFuseRead (vol w)) (e_rmdir e (mFuseRead (vol w))),
           Rmdir (mFuseWrite (vol w)) (e_rmdir e (mFuseWrite (vol w))),
           Rmdir (mRawPath (vol w)) (e_rmdir e (mRawPath (vol w)))]"
  by (simp_all add: force_unmount_all_def Let_def)

lemma clear_paths_vol: "vol (clear_paths w) =
      (vol w)\<lparr>mFuseDefault := [], mFuseRead := [], mFuseWrite := [], mRawPath := []\<rparr>"
  and clear_paths_props [simp]: "props (clear_paths w) = props w"
  and clear_paths_calls [simp]: "calls (clear_paths w) = calls w"
  by (simp_all add: clear_paths_def)

lemma clear_slot_vol [simp]: "vol (clear_slot pk sk tk sn w) = vol w"
  and clear_slot_calls [simp]: "calls (clear_slot pk sk tk sn w) = calls w"
  by (simp_all add: clear_slot_def)

lemma clear_slots_vol [simp]: "vol (clear_slots w) = vol w"
  and clear_slots_calls [simp]: "calls (clear_slots w) = calls w"
  by (simp_all add: clear_slots_def Let_def)

lemma clear_slot_props:
  "props (clear_slot pk sk tk sn w) =
     (if property_get w sk [] = sn then (props w)(pk \<mapsto> [], sk \<mapsto> [], tk \<mapsto> ''0'') else props w)"
  by (simp add: clear_slot_def)

lemma property_get_cong: "props a = props b \<Longrightarrow> property_get a k d = property_get b k d"
  by (simp add: property_get_def)

text \<open>One slot after all three blocks: only the block of the slot itself touches its
  keys, and it reads the storage name the call started with.\<close>

lemma clear_slots_update:
  "props (clear_slots w) k =
     (if k \<in> {''sys.update.path'', ''sys.update.storage'', ''sys.update.trigger''}
         \<and> property_get w ''sys.update.storage'' [] = stableName (vol w)
      then (if k = ''sys.update.trigger'' then Some ''0'' else Some [])
      else if k \<in> {''sys.startup.path'', ''sys.startup.storage'', ''sys.startup.trigger''}
         \<and> property_get w ''sys.startup.storage'' [] = stableName (vol w)
      then (if k = ''sys.startup.trigger'' then Some ''0'' else Some [])
      else if k \<in> {''sys.cust.path'', ''sys.cust.storage'', ''sys.cust.trigger''}
         \<and> property_get w ''sys.cust.storage'' [] = stableName (vol w)
      then (if k = ''sys.cust.trigger'' then Some ''0'' else Some [])
      else props w k)"
  by (simp add: clear_slots_def Let_def clear_slot_props property_get_def)

subsection \<open>Whole runs\<close>

text \<open>A mount of a volume that is neither visible nor primary, with no hook claimed and
  no trigger file present, whose probe, directories and native mount go through.\<close>

lemma doMount_hidden_run:
  fixes e w
  defines "m \<equiv> e_ReadMetadataUntrusted e (mDevPath (vol w))"
  defines "dp \<equiv> mDevPath (vol w)"
  defines "sn \<equiv> stableName (vol (snd (readMetadata e w)))"
  defines "raw \<equiv> ''/mnt/media_rw/'' @ stableName (vol (snd (readMetadata e w)))"
  assumes sup: "fst (snd m) = ''vfat'' \<or> fst (snd m) = ''ntfs''"
    and probe: "e_vfat_Check e dp = 0 \<and> e_vfat_Mount e dp raw = 0
                \<or> e_vfat_Check e dp \<noteq> 0 \<and> e_Ntfs_check e dp = 0"
    and dirs: "\<And>p. fst (e_fs_prepare_dir e p) = 0"
    and nv: "getMountFlags (vol w) AND kVisible = 0"
    and np: "getMountFlags (vol w) AND kPrimary = 0"
    and idle: "property_get_bool w ''sys.update.trigger'' 0 \<noteq> 1"
              "property_get_bool w ''sys.startup.trigger'' 0 \<noteq> 1"
              "property_get_bool w ''sys.cust.trigger'' 0 \<noteq> 1"
    and nofile: "\<And>p. e_access e p F_OK \<noteq> 0"
  shows "\<exists>w'. doMount e w = Some (Return OK, w')
          \<and> vol w' = vol (assign_paths sn (snd (readMetadata e w))) \<and> props w' = props w
          \<and> calls w' = calls w @
              [ReadMetadataUntrusted dp, NotifyEvent VolumeFsTypeChanged (fst (snd m)),
               NotifyEvent VolumeFsUuidChanged (fst (snd (snd m))),
               NotifyEvent VolumeFsLabelChanged (snd (snd (snd m))), VfatCheck dp]
              @ (if e_vfat_Check e dp \<noteq> 0 then [NtfsCheck dp] else [])
              @ [SetInternalPath raw, SetPath raw,
                 FsPrepareDir raw 448 AID_ROOT AID_ROOT,
                 FsPrepareDir (''/mnt/runtime/default/'' @ sn) 448 AID_ROOT AID_ROOT,
                 FsPrepareDir (''/mnt/runtime/read/'' @ sn) 448 AID_ROOT AID_ROOT,
                 FsPrepareDir (''/mnt/runtime/write/'' @ sn) 448 AID_ROOT AID_ROOT,
                 (if e_vfat_Check e dp \<noteq> 0 then NtfsDoMount dp raw (e_Ntfs_doMount e dp raw)
                  else VfatMount dp raw),
                 Access (raw @ ''/OTA/update.zip'') F_OK,
                 Access (raw @ ''/startup/start_up.sh'') F_OK,
                 Access (raw @ ''/cust/cust_update.zip'') F_OK]"
proof -
  from doMount_to_hooks [of e w, OF sup [unfolded m_def] probe [unfolded dp_def raw_def] dirs]
  obtain wm where
    d: "doMount e w =
            uevent_handled e sn
              (update_hook e sn (raw @ ''/OTA/update.zip'') (raw @ ''/startup/start_up.sh'')
                 (raw @ ''/cust/cust_update.zip'')
                 (property_get_bool w ''sys.update.trigger'' 0)
                 (property_get_bool w ''sys.startup.trigger'' 0)
                 (property_get_bool w ''sys.cust.trigger'' 0) wm)"
    and vm: "vol wm = vol (assign_paths sn (snd (readMetadata e w)))" and pm: "props wm = props w"
    and cm: "calls wm = calls w @
              [ReadMetadataUntrusted dp, NotifyEvent VolumeFsTypeChanged (fst (snd m)),
               NotifyEvent VolumeFsUuidChanged (fst (snd (snd m))),
               NotifyEvent VolumeFsLabelChanged (snd (snd (snd m))), VfatCheck dp]
              @ (if e_vfat_Check e dp \<noteq> 0 then [NtfsCheck dp] else [])
              @ [SetInternalPath raw,
                 SetPath (if getMountFlags (vol w) AND kVisible \<noteq> 0 then ''/storage/'' @ sn else raw),
                 FsPrepareDir raw 448 AID_ROOT AID_ROOT,
                 FsPrepareDir (''/mnt/runtime/default/'' @ sn) 448 AID_ROOT AID_ROOT,
                 FsPrepareDir (''/mnt/runtime/read/'' @ sn) 448 AID_ROOT AID_ROOT,
                 FsPrepareDir (''/mnt/runtime/write/'' @ sn) 448 AID_ROOT AID_ROOT,
                 (if e_vfat_Check e dp \<noteq> 0 then NtfsDoMount dp raw (e_Ntfs_doMount e dp raw)
                  else VfatMount dp raw)]"
    unfolding m_def dp_def sn_def raw_def by blast
  define wh where "wh = emit (Access (raw @ ''/cust/cust_update.zip'') F_OK)
                    (emit (Access (raw @ ''/startup/start_up.sh'') F_OK)
                      (emit (Access (raw @ ''/OTA/update.zip'') F_OK) wm))"
  have h: "update_hook e sn (raw @ ''/OTA/update.zip'') (raw @ ''/startup/start_up.sh'')
                 (raw @ ''/cust/cust_update.zip'')
                 (property_get_bool w ''sys.update.trigger'' 0)
                 (property_get_bool w ''sys.startup.trigger'' 0)
                 (property_get_bool w ''sys.cust.trigger'' 0) wm = wh"
    unfolding wh_def by (rule update_hook_none_fires) (rule idle nofile)+
  have fl: "getMountFlags (vol wh) = getMountFlags (vol w)"
    by (simp add: wh_def vm assign_paths_vol getMountFlags_def readMetadata_vol)
  have "uevent_handled e sn wh = Some (Return OK, wh)"
    using nv np fl by (simp add: uevent_handled_def spinUpFuse_not_visible)
  with d h have "doMount e w = Some (Return OK, wh)" by simp
  moreover have "vol wh = vol (assign_paths sn (snd (readMetadata e w)))" by (simp add: wh_def vm)
  moreover have "props wh = props w" by (simp add: wh_def pm)
  moreover have "calls wh = calls w @
              [ReadMetadataUntrusted dp, NotifyEvent VolumeFsTypeChanged (fst (snd m)),
               NotifyEvent VolumeFsUuidChanged (fst (snd (snd m))),
               NotifyEvent VolumeFsLabelChanged (snd (snd (snd m))), VfatCheck dp]
              @ (if e_vfat_Check e dp \<noteq> 0 then [NtfsCheck dp] else [])
              @ [SetInternalPath raw, SetPath raw,
                 FsPrepareDir raw 448 AID_ROOT AID_ROOT,
                 FsPrepareDir (''/mnt/runtime/default/'' @ sn) 448 AID_ROOT AID_ROOT,
                 FsPrepareDir (''/mnt/runtime/read/'' @ sn) 448 AID_ROOT AID_ROOT,
                 FsPrepareDir (''/mnt/runtime/write/'' @ sn) 448 AID_ROOT AID_ROOT,
                 (if e_vfat_Check e dp \<noteq> 0 then NtfsDoMount dp raw (e_Ntfs_doMount e dp raw)
                  else VfatMount dp raw),
                 Access (raw @ ''/OTA/update.zip'') F_OK,
                 Access (raw @ ''/startup/start_up.sh'') F_OK,
                 Access (raw @ ''/cust/cust_update.zip'') F_OK]"
    using nv by (simp add: wh_def cm)
  ultimately show ?thesis by blast
qed

subsection \<open>The example states and environments\<close>

lemma format_u_179: "format_u 179 = ''179''"
  by (simp add: format_u.simps digit_char_def)

lemma format_u_1: "format_u (Suc 0) = ''1''"
  by (subst format_u.simps) (simp add: digit_char_def)

lemma hidden0_vol:
  "vol hidden0 = \<lparr>base = \<lparr>mId = ''public:179:1'', mMountFlags = 0, mMountUserId = 0\<rparr>,
      mDevice = \<lparr>dev_major = 179, dev_minor = 1\<rparr>,
      mDevPath = ''/dev/block/vold/public:179:1'', mFsType = [], mFsUuid = [], mFsLabel = [],
      mRawPath = [], mFuseDefault = [], mFuseRead = [], mFuseWrite = [], mFusePid = 0\<rparr>"
  and hidden0_props: "props hidden0 = Map.empty" and hidden0_calls: "calls hidden0 = []"
  by (simp_all add: hidden0_def PublicVolume_ctor_def setId_def getId_def format_u_179 format_u_1)

lemma world0_vol:
  "vol world0 = \<lparr>base = \<lparr>mId = ''public:179:1'', mMountFlags = 2, mMountUserId = 0\<rparr>,
      mDevice = \<lparr>dev_major = 179, dev_minor = 1\<rparr>,
      mDevPath = ''/dev/block/vold/public:179:1'', mFsType = [], mFsUuid = [], mFsLabel = [],
      mRawPath = [], mFuseDefault = [], mFuseRead = [], mFuseWrite = [], mFusePid = 0\<rparr>"
  and world0_props: "props world0 = Map.empty" and world0_calls: "calls world0 = []"
  by (simp_all add: world0_def PublicVolume_ctor_def setId_def getId_def format_u_179 format_u_1
      kVisible_def)

lemma idle_when_unset: "props w k = None \<Longrightarrow> property_get_bool w k 0 \<noteq> 1"
  by (simp add: property_get_bool_def property_get_def)

lemma env0_simps:
  "e_ReadMetadataUntrusted env0 = (\<lambda>p. (0, ''vfat'', ''ABCD-1234'', ''SDCARD''))"
  "e_vfat_Check env0 = (\<lambda>p. 0)" "e_Ntfs_check env0 = (\<lambda>p. 0)"
  "e_fs_prepare_dir env0 = (\<lambda>p. (0, 0))" "e_vfat_Mount env0 = (\<lambda>s t. 0)"
  "e_access env0 = (\<lambda>p m. - 1)" "e_mkdir env0 = (\<lambda>p n. (0, 0))"
  "e_fork env0 = (4321, 0)" "e_waitpid env0 = (\<lambda>p n. (p, 0))"
  by (simp_all add: env0_def)

lemma env_no_uuid_simps:
  "e_ReadMetadataUntrusted env_no_uuid = (\<lambda>p. (0, ''vfat'', [], []))"
  "e_vfat_Check env_no_uuid = (\<lambda>p. 0)"
  "e_fs_prepare_dir env_no_uuid = (\<lambda>p. (0, 0))" "e_vfat_Mount env_no_uuid = (\<lambda>s t. 0)"
  "e_access env_no_uuid = (\<lambda>p m. - 1)"
  by (simp_all add: env_no_uuid_def env0_def)

text \<open>Two mounts of the hidden volume of device 179:1 that succeed: of a medium without
  UUID, and of a medium with UUID "ABCD-1234".\<close>

lemma hidden_no_uuid_run:
  "\<exists>w'. doMount env_no_uuid hidden0 = Some (Return OK, w')
      \<and> stableName (vol w') = ''public:179:1'' \<and> mFusePid (vol w') = 0"
  using doMount_hidden_run [of env_no_uuid hidden0]
  apply (clarsimp simp: env_no_uuid_simps hidden0_vol hidden0_props hidden0_calls getMountFlags_def
      idle_when_unset assign_paths_vol readMetadata_vol stableName_def getId_def)
  subgoal for w' by (rule exI [where x = w']) simp
  done

lemma hidden_uuid_run:
  "\<exists>w'. doMount env0 hidden0 = Some (Return OK, w')
      \<and> stableName (vol w') = ''ABCD-1234'' \<and> mFusePid (vol w') = 0"
  using doMount_hidden_run [of env0 hidden0]
  apply (clarsimp simp: env0_simps hidden0_vol hidden0_props hidden0_calls getMountFlags_def
      idle_when_unset assign_paths_vol readMetadata_vol stableName_def getId_def)
  subgoal for w' by (rule exI [where x = w']) simp
  done

lemma doUnmount_Some:
  assumes "doUnmount e w = Some (s, w')"
  shows "s = OK"
    and "\<exists>w1. reapFuse e w = Some w1 \<and> w' = clear_slots (clear_paths (force_unmount_all e w1))"
  using assms by (auto simp: doUnmount_def split: option.splits)

lemma doUnmount_frame:
  assumes "doUnmount e w = Some (s, w')"
  shows "s = OK
    \<and> vol w' = (vol w)\<lparr>mFusePid := (if 0 < mFusePid (vol w) then 0 else mFusePid (vol w)),
                       mFuseDefault := [], mFuseRead := [], mFuseWrite := [], mRawPath := []\<rparr>
    \<and> props w' = props (clear_slots w)
    \<and> (\<exists>n. calls w' = calls w @
            (if 0 < mFusePid (vol w)
             then Kill (mFusePid (vol w)) SIGTERM (e_kill e (mFusePid (vol w)) SIGTERM)
                    # replicate (Suc n) (Waitpid (mFusePid (vol w)))
             else []) @
          [ForceUnmount kAsecPath (e_ForceUnmount e kAsecPath),
           ForceUnmount (mFuseDefault (vol w)) (e_ForceUnmount e (mFuseDefault (vol w))),
           ForceUnmount (mFuseRead (vol w)) (e_ForceUnmount e (mFuseRead (vol w))),
           ForceUnmount (mFuseWrite (vol w)) (e_ForceUnmount e (mFuseWrite (vol w))),
           ForceUnmount (mRawPath (vol w)) (e_ForceUnmount e (mRawPath (vol w))),
           Rmdir (mFuseDefault (vol w)) (e_rmdir e (mFuseDefault (vol w))),
           Rmdir (mFuseRead (vol w)) (e_rmdir e (mFuseRead (vol w))),
           Rmdir (mFuseWrite (vol w)) (e_rmdir e (mFuseWrite (vol w))),
           Rmdir (mRawPath (vol w)) (e_rmdir e (mRawPath (vol w)))])"
proof -
  from doUnmount_Some [OF assms] obtain w1 where
    s: "s = OK" and r: "reapFuse e w = Some w1"
    and w': "w' = clear_slots (clear_paths (force_unmount_all e w1))"
    by blast
  from reapFuse_Some [OF r] obtain n where
    p1: "props w1 = props w"
    and v1: "vol w1 = (vol w)\<lparr>mFusePid := (if 0 < mFusePid (vol w) then 0 else mFusePid (vol w))\<rparr>"
    and c1: "calls w1 = calls w @
            (if 0 < mFusePid (vol w)
             then Kill (mFusePid (vol w)) SIGTERM (e_kill e (mFusePid (vol w)) SIGTERM)
                    # replicate (Suc n) (Waitpid (mFusePid (vol w)))
             else [])"
    by blast
  have sn: "stableName (vol (clear_paths (force_unmount_all e w1))) = stableName (vol w)"
    by (simp add: clear_paths_vol v1 stableName_def getId_def)
  have pr: "props w' = props (clear_slots w)"
    by (rule ext) (simp add: w' clear_slots_update sn p1 property_get_def)
  have vo: "vol w' = (vol w)\<lparr>mFusePid := (if 0 < mFusePid (vol w) then 0 else mFusePid (vol w)),
                       mFuseDefault := [], mFuseRead := [], mFuseWrite := [], mRawPath := []\<rparr>"
    by (simp add: w' clear_paths_vol v1)
  have ca: "calls w' = calls w1 @
          [ForceUnmount kAsecPath (e_ForceUnmount e kAsecPath),
           ForceUnmount (mFuseDefault (vol w)) (e_ForceUnmount e (mFuseDefault (vol w))),
           ForceUnmount (mFuseRead (vol w)) (e_ForceUnmount e (mFuseRead (vol w))),
           ForceUnmount (mFuseWrite (vol w)) (e_ForceUnmount e (mFuseWrite (vol w))),
           ForceUnmount (mRawPath (vol w)) (e_ForceUnmount e (mRawPath (vol w))),
           Rmdir (mFuseDefault (vol w)) (e_rmdir e (mFuseDefault (vol w))),
           Rmdir (mFuseRead (vol w)) (e_rmdir e (mFuseRead (vol w))),
           Rmdir (mFuseWrite (vol w)) (e_rmdir e (mFuseWrite (vol w))),
           Rmdir (mRawPath (vol w)) (e_rmdir e (mRawPath (vol w)))]"
    by (simp add: w' force_unmount_all_calls v1)
  show ?thesis
    using s vo pr ca c1 by (intro conjI exI [where x = n]) simp_all
qed

lemma doUnmount_returns:
  assumes "0 < mFusePid (vol w) \<Longrightarrow>
     \<not> (fst (e_waitpid e (mFusePid (vol w)) d) = - 1 \<and> snd (e_waitpid e (mFusePid (vol w)) d) = EINTR)"
  shows "\<exists>w'. doUnmount e w = Some (OK, w')"
proof -
  from reapFuse_returns [of w e d] assms obtain w1 where "reapFuse e w = Some w1" by blast
  then show ?thesis by (simp add: doUnmount_def)
qed

lemma doUnmount_never:
  assumes "0 < mFusePid (vol w)"
    and "\<And>k. fst (e_waitpid e (mFusePid (vol w)) k) = - 1 \<and> snd (e_waitpid e (mFusePid (vol w)) k) = EINTR"
  shows "doUnmount e w = None"
  using reapFuse_never [OF assms] by (simp add: doUnmount_def)

lemma bridged0_vol:
  "vol bridged0 = \<lparr>base = \<lparr>mId = ''public:179:1'', mMountFlags = 2, mMountUserId = 0\<rparr>,
      mDevice = \<lparr>dev_major = 179, dev_minor = 1\<rparr>,
      mDevPath = ''/dev/block/vold/public:179:1'', mFsType = ''vfat'', mFsUuid = ''ABCD-1234'',
      mFsLabel = [], mRawPath = ''/mnt/media_rw/ABCD-1234'',
      mFuseDefault = ''/mnt/runtime/default/ABCD-1234'',
      mFuseRead = ''/mnt/runtime/read/ABCD-1234'',
      mFuseWrite = ''/mnt/runtime/write/ABCD-1234'', mFusePid = 4321\<rparr>"
  and bridged0_props: "props bridged0 = Map.empty" and bridged0_calls: "calls bridged0 = []"
  by (simp_all add: bridged0_def world0_vol world0_props world0_calls)

text \<open>A mount of a visible volume that is not primary, when the fork fails.\<close>

lemma doMount_fork_failure_run:
  fixes e w
  defines "m \<equiv> e_ReadMetadataUntrusted e (mDevPath (vol w))"
  defines "dp \<equiv> mDevPath (vol w)"
  defines "raw \<equiv> ''/mnt/media_rw/'' @ stableName (vol (snd (readMetadata e w)))"
  assumes sup: "fst (snd m) = ''vfat'' \<or> fst (snd m) = ''ntfs''"
    and probe: "e_vfat_Check e dp = 0 \<and> e_vfat_Mount e dp raw = 0
                \<or> e_vfat_Check e dp \<noteq> 0 \<and> e_Ntfs_check e dp = 0"
    and dirs: "\<And>p. fst (e_fs_prepare_dir e p) = 0"
    and vis: "getMountFlags (vol w) AND kVisible \<noteq> 0"
    and np: "getMountFlags (vol w) AND kPrimary = 0"
    and ff: "fst (e_fork e) = - 1"
  shows "\<exists>w'. doMount e w = Some (Return (- snd (e_fork e)), w') \<and> mFusePid (vol w') = - 1"
proof -
  from doMount_to_hooks [of e w, OF sup [unfolded m_def] probe [unfolded dp_def raw_def] dirs]
  obtain wm up sp cp ut st ct sn where
    d: "doMount e w = uevent_handled e sn (update_hook e sn up sp cp ut st ct wm)"
    and vm: "vol wm = vol (assign_paths sn (snd (readMetadata e w)))"
    by blast
  define wh where "wh = update_hook e sn up sp cp ut st ct wm"
  have fl: "getMountFlags (vol wh) = getMountFlags (vol w)"
    by (simp add: wh_def hooks_vol vm assign_paths_vol getMountFlags_def readMetadata_vol)
  have "uevent_handled e sn wh = spinUpFuse e sn wh"
    using np fl by (simp add: uevent_handled_plain)
  also have "\<dots> = Some (Return (- snd (e_fork e)),
           emit Fork (emit (GetDevice (mFuseWrite (vol wh))) wh\<lparr>vol := (vol wh)\<lparr>mFusePid := - 1\<rparr>\<rparr>))"
    using vis fl ff by (simp add: spinUpFuse_fork_fails)
  finally show ?thesis using d by (simp add: wh_def)
qed

lemma fork_failure_run:
  "\<exists>w'. doMount env_fork_fails world0 = Some (Return (- 12), w') \<and> mFusePid (vol w') = - 1"
proof -
  have e: "e_ReadMetadataUntrusted env_fork_fails = (\<lambda>p. (0, ''vfat'', ''ABCD-1234'', ''SDCARD''))"
    "e_vfat_Check env_fork_fails = (\<lambda>p. 0)"
    "e_fs_prepare_dir env_fork_fails = (\<lambda>p. (0, 0))" "e_vfat_Mount env_fork_fails = (\<lambda>s t. 0)"
    "e_fork env_fork_fails = (- 1, 12)"
    by (simp_all add: env_fork_fails_def env0_def)
  from doMount_fork_failure_run [of env_fork_fails world0]
  show ?thesis
    by (simp add: e world0_vol getMountFlags_def kVisible_def kPrimary_def)
qed

text \<open>A mount of a visible volume that is not primary, when the fork succeeds and the
  write view changes device at some poll: the call returns success with the pid of the
  child recorded.\<close>

lemma doMount_bridge_run:
  fixes e w
  defines "m \<equiv> e_ReadMetadataUntrusted e (mDevPath (vol w))"
  defines "dp \<equiv> mDevPath (vol w)"
  defines "raw \<equiv> ''/mnt/media_rw/'' @ stableName (vol (snd (readMetadata e w)))"
  assumes sup: "fst (snd m) = ''vfat'' \<or> fst (snd m) = ''ntfs''"
    and probe: "e_vfat_Check e dp = 0 \<and> e_vfat_Mount e dp raw = 0
                \<or> e_vfat_Check e dp \<noteq> 0 \<and> e_Ntfs_check e dp = 0"
    and dirs: "\<And>p. fst (e_fs_prepare_dir e p) = 0"
    and vis: "getMountFlags (vol w) AND kVisible \<noteq> 0"
    and np: "getMountFlags (vol w) AND kPrimary = 0"
    and pid: "fst (e_fork e) \<noteq> 0" "fst (e_fork e) \<noteq> - 1"
    and ready: "\<And>p. e_GetDevice e p 0 \<noteq> e_GetDevice e p (Suc d)"
  shows "\<exists>w'. doMount e w = Some (Return OK, w') \<and> mFusePid (vol w') = fst (e_fork e)"
proof -
  from doMount_to_hooks [of e w, OF sup [unfolded m_def] probe [unfolded dp_def raw_def] dirs]
  obtain wm up sp cp ut st ct sn where
    d: "doMount e w = uevent_handled e sn (update_hook e sn up sp cp ut st ct wm)"
    and vm: "vol wm = vol (assign_paths sn (snd (readMetadata e w)))"
    by blast
  define wh where "wh = update_hook e sn up sp cp ut st ct wm"
  have fl: "getMountFlags (vol wh) = getMountFlags (vol w)"
    by (simp add: wh_def hooks_vol vm assign_paths_vol getMountFlags_def readMetadata_vol)
  have u: "uevent_handled e sn wh = spinUpFuse e sn wh"
    using np fl by (simp add: uevent_handled_plain)
  have vis': "getMountFlags (vol wh) AND kVisible \<noteq> 0" using vis fl by simp
  from spinUpFuse_parent_returns [OF vis' pid ready] obtain w' where
    s: "spinUpFuse e sn wh = Some (Return OK, w')"
    by blast
  from spinUpFuse_visible [OF s vis'] have "mFusePid (vol w') = fst (e_fork e)" by simp
  with d u s show ?thesis by (simp add: wh_def)
qed

lemma bridge_run:
  "\<exists>w'. doMount env0 world0 = Some (Return OK, w') \<and> mFusePid (vol w') = 4321"
proof -
  have r: "\<And>p. e_GetDevice env0 p 0 \<noteq> e_GetDevice env0 p (Suc (Suc 0))"
    by (simp add: env0_def)
  from doMount_bridge_run [of env0 world0 "Suc 0"]
  show ?thesis
    by (simp add: env0_simps r world0_vol getMountFlags_def kVisible_def kPrimary_def)
qed

subsection \<open>The hook blocks and the loop of the specification\<close>

lemma hook_claimed_emit [simp]: "hook_claimed (emit ev w) h = hook_claimed w h"
  by (simp add: hook_claimed_def property_get_bool_def property_get_def)

lemma claim_slot_vol [simp]: "vol (claim_slot sn h w) = vol w"
  and claim_slot_calls [simp]: "calls (claim_slot sn h w) = calls w"
  and claim_slot_props: "props (claim_slot sn h w) =
        (props w)(hook_path_key h \<mapsto> hook_file h, hook_storage_key h \<mapsto> sn,
                  hook_trigger_key h \<mapsto> ''1'')"
  by (simp_all add: claim_slot_def)

lemma cust_hook_spec:
  "cust_hook e sn cp (property_get_bool w ''sys.cust.trigger'' 0) w =
     eval_hooks e sn [\<lparr>hook_file = cp, hook_path_key = ''sys.cust.path'',
                       hook_storage_key = ''sys.cust.storage'',
                       hook_trigger_key = ''sys.cust.trigger''\<rparr>] w"
  by (rule world_eqI) (simp_all add: cust_hook_def Let_def hook_claimed_def claim_slot_props)

lemma startup_hook_spec:
  "startup_hook e sn sp cp (property_get_bool w ''sys.startup.trigger'' 0)
       (property_get_bool w ''sys.cust.trigger'' 0) w =
     eval_hooks e sn [\<lparr>hook_file = sp, hook_path_key = ''sys.startup.path'',
                       hook_storage_key = ''sys.startup.storage'',
                       hook_trigger_key = ''sys.startup.trigger''\<rparr>,
                      \<lparr>hook_file = cp, hook_path_key = ''sys.cust.path'',
                       hook_storage_key = ''sys.cust.storage'',
                       hook_trigger_key = ''sys.cust.trigger''\<rparr>] w"
proof -
  have pg: "property_get_bool w ''sys.cust.trigger'' 0
              = property_get_bool (emit (Access sp F_OK) w) ''sys.cust.trigger'' 0"
    by (rule property_get_bool_cong) simp
  have claim: "property_set ''sys.startup.trigger'' ''1''
                (property_set ''sys.startup.storage'' sn
                  (property_set ''sys.startup.path'' sp (emit (Access sp F_OK) w)))
      = claim_slot sn \<lparr>hook_file = sp, hook_path_key = ''sys.startup.path'',
                       hook_storage_key = ''sys.startup.storage'',
                       hook_trigger_key = ''sys.startup.trigger''\<rparr> (emit (Access sp F_OK) w)"
    by (rule world_eqI) (simp_all add: claim_slot_props)
  show ?thesis
    using cust_hook_spec [of e sn cp w] cust_hook_spec [of e sn cp "emit (Access sp F_OK) w"]
    by (simp add: startup_hook_def Let_def hook_claimed_def claim pg [symmetric]
        del: eval_hooks.simps(2))
       (simp add: hook_claimed_def)
qed


lemma update_hook_spec:
  "update_hook e sn up sp cp (property_get_bool w ''sys.update.trigger'' 0)
       (property_get_bool w ''sys.startup.trigger'' 0)
       (property_get_bool w ''sys.cust.trigger'' 0) w =
     eval_hooks e sn [\<lparr>hook_file = up, hook_path_key = ''sys.update.path'',
                       hook_storage_key = ''sys.update.storage'',
                       hook_trigger_key = ''sys.update.trigger''\<rparr>,
                      \<lparr>hook_file = sp, hook_path_key = ''sys.startup.path'',
                       hook_storage_key = ''sys.startup.storage'',
                       hook_trigger_key = ''sys.startup.trigger''\<rparr>,
                      \<lparr>hook_file = cp, hook_path_key = ''sys.cust.path'',
                       hook_storage_key = ''sys.cust.storage'',
                       hook_trigger_key = ''sys.cust.trigger''\<rparr>] w"
proof -
  have pg: "\<And>k. property_get_bool w k 0 = property_get_bool (emit (Access up F_OK) w) k 0"
    by (rule property_get_bool_cong) simp
  have claim: "property_set ''sys.update.trigger'' ''1''
                (property_set ''sys.update.path'' up
                  (property_set ''sys.update.storage'' sn (emit (Access up F_OK) w)))
      = claim_slot sn \<lparr>hook_file = up, hook_path_key = ''sys.update.path'',
                       hook_storage_key = ''sys.update.storage'',
                       hook_trigger_key = ''sys.update.trigger''\<rparr> (emit (Access up F_OK) w)"
    by (rule world_eqI) (auto simp: claim_slot_props)
  have rest: "startup_hook e sn sp cp (property_get_bool w ''sys.startup.trigger'' 0)
       (property_get_bool w ''sys.cust.trigger'' 0) (emit (Access up F_OK) w)
     = eval_hooks e sn [\<lparr>hook_file = sp, hook_path_key = ''sys.startup.path'',
                       hook_storage_key = ''sys.startup.storage'',
                       hook_trigger_key = ''sys.startup.trigger''\<rparr>,
                      \<lparr>hook_file = cp, hook_path_key = ''sys.cust.path'',
                       hook_storage_key = ''sys.cust.storage'',
                       hook_trigger_key = ''sys.cust.trigger''\<rparr>] (emit (Access up F_OK) w)"
    using startup_hook_spec [of e sn sp cp "emit (Access up F_OK) w"]
    by (simp only: pg [symmetric])
  show ?thesis
    by (subst eval_hooks.simps(2))
       (simp add: update_hook_def Let_def hook_claimed_def claim rest startup_hook_spec
          del: eval_hooks.simps(2))
qed

text \<open>The two native mounts side by side: the vfat failure returns \<^verbatim>\<open>-EIO\<close>; on the
  NTFS path the result of the mount only appears in the log.\<close>

lemma mount_and_hooks_vfat_failure:
  "ntfs = 0 \<Longrightarrow> e_vfat_Mount e (mDevPath (vol w)) (mRawPath (vol w)) \<noteq> 0 \<Longrightarrow>
     mount_and_hooks e ntfs sn up sp cp ut st ct w
       = Some (Return (- EIO), emit (VfatMount (mDevPath (vol w)) (mRawPath (vol w))) w)"
  by (simp add: mount_and_hooks_def Let_def)

lemma mount_and_hooks_ntfs_goes_on:
  "ntfs \<noteq> 0 \<Longrightarrow>
     mount_and_hooks e ntfs sn up sp cp ut st ct w
       = uevent_handled e sn
           (update_hook e sn up sp cp ut st ct
              (emit (NtfsDoMount (mDevPath (vol w)) (mRawPath (vol w))
                       (e_Ntfs_doMount e (mDevPath (vol w)) (mRawPath (vol w)))) w))"
  by (simp add: mount_and_hooks_def Let_def)

subsection \<open>The verified properties\<close>

text \<open>
  C7. \<^verbatim>\<open>doFormat\<close> accepts exactly the two strings "vfat" and "auto": for these it
  issues the wipe and then the format; for every other string it returns \<^verbatim>\<open>-EINVAL\<close>
  and makes no call at all, so the device is left untouched.
\<close>

theorem doFormat_accepts_exactly_vfat_auto:
  "(fsType = ''vfat'' \<or> fsType = ''auto'' \<longrightarrow>
      calls (snd (doFormat e fsType w))
        = calls w @ [WipeBlockDevice (mDevPath (vol w)) (e_WipeBlockDevice e (mDevPath (vol w))),
                     VfatFormat (mDevPath (vol w)) 0])
   \<and> (fsType \<noteq> ''vfat'' \<and> fsType \<noteq> ''auto'' \<longrightarrow>
      doFormat e fsType w = (- EINVAL, w))"
  by (auto simp: doFormat_def emit_def Let_def split: prod.splits)

theorem doFormat_accepts_exactly_vfat_auto_witness:
  "calls (snd (doFormat env0 ''auto'' world0))
        = calls world0 @ [WipeBlockDevice (mDevPath (vol world0))
                            (e_WipeBlockDevice env0 (mDevPath (vol world0))),
                          VfatFormat (mDevPath (vol world0)) 0]
   \<and> doFormat env0 ''ntfs'' world0 = (- EINVAL, world0)"
  using doFormat_accepts_exactly_vfat_auto [of "''auto''" env0 world0]
        doFormat_accepts_exactly_vfat_auto [of "''ntfs''" env0 world0]
  by simp

text \<open>
  C3. For a supported \<^verbatim>\<open>fsType\<close> the probe has a fixed precedence: the vfat checker is
  called first; the NTFS checker is called exactly when the vfat check fails; when both
  fail, \<^verbatim>\<open>doMount\<close> returns \<^verbatim>\<open>-EIO\<close> right after the two checks, so that no native
  mount call is made. In every completed call the log after the metadata step starts with
  the vfat check, followed by the NTFS check exactly when the vfat check failed, and holds
  no further check.
\<close>

theorem doMount_probe_precedence:
  fixes e w
  defines "dp \<equiv> mDevPath (vol w)"
  defines "w1 \<equiv> snd (readMetadata e w)"
  assumes sup: "mFsType (vol (snd (readMetadata e w))) = ''vfat''
                \<or> mFsType (vol (snd (readMetadata e w))) = ''ntfs''"
  shows "(e_vfat_Check e dp = 0 \<longrightarrow> doMount e w = doMount_probed e 0 (emit (VfatCheck dp) w1))
     \<and> (e_vfat_Check e dp \<noteq> 0 \<and> e_Ntfs_check e dp = 0 \<longrightarrow>
          doMount e w = doMount_probed e 1 (emit (NtfsCheck dp) (emit (VfatCheck dp) w1)))
     \<and> (e_vfat_Check e dp \<noteq> 0 \<and> e_Ntfs_check e dp \<noteq> 0 \<longrightarrow>
          doMount e w = Some (Return (- EIO), emit (NtfsCheck dp) (emit (VfatCheck dp) w1)))
     \<and> (\<forall>r w'. doMount e w = Some (r, w') \<longrightarrow>
          (\<exists>rest. calls w' = calls w1 @ VfatCheck dp
                      # (if e_vfat_Check e dp \<noteq> 0 then [NtfsCheck dp] else []) @ rest
             \<and> (\<forall>ev\<in>set rest. kind ev \<noteq> Check)
             \<and> (e_vfat_Check e dp \<noteq> 0 \<and> e_Ntfs_check e dp \<noteq> 0 \<longrightarrow> rest = [])))"
proof -
  have a: "e_vfat_Check e dp = 0 \<Longrightarrow> doMount e w = doMount_probed e 0 (emit (VfatCheck dp) w1)"
    using sup by (auto simp: doMount_unfold dp_def w1_def)
  have b: "e_vfat_Check e dp \<noteq> 0 \<Longrightarrow> e_Ntfs_check e dp = 0 \<Longrightarrow>
          doMount e w = doMount_probed e 1 (emit (NtfsCheck dp) (emit (VfatCheck dp) w1))"
    using sup by (auto simp: doMount_unfold dp_def w1_def)
  have c: "e_vfat_Check e dp \<noteq> 0 \<Longrightarrow> e_Ntfs_check e dp \<noteq> 0 \<Longrightarrow>
          doMount e w = Some (Return (- EIO), emit (NtfsCheck dp) (emit (VfatCheck dp) w1))"
    using sup by (auto simp: doMount_unfold dp_def w1_def)
  have d: "\<exists>rest. calls w' = calls w1 @ VfatCheck dp
                      # (if e_vfat_Check e dp \<noteq> 0 then [NtfsCheck dp] else []) @ rest
             \<and> (\<forall>ev\<in>set rest. kind ev \<noteq> Check)
             \<and> (e_vfat_Check e dp \<noteq> 0 \<and> e_Ntfs_check e dp \<noteq> 0 \<longrightarrow> rest = [])"
    if run: "doMount e w = Some (r, w')" for r w'
  proof -
    consider (vfat) "e_vfat_Check e dp = 0"
      | (ntfs) "e_vfat_Check e dp \<noteq> 0" "e_Ntfs_check e dp = 0"
      | (none) "e_vfat_Check e dp \<noteq> 0" "e_Ntfs_check e dp \<noteq> 0"
      by blast
    then show ?thesis
    proof cases
      case vfat
      from run a [OF vfat] have "doMount_probed e 0 (emit (VfatCheck dp) w1) = Some (r, w')" by simp
      from doMount_probed_frame [OF this] obtain new where
        "calls w' = calls (emit (VfatCheck dp) w1) @ new"
        "\<forall>ev\<in>set new. kind ev = Paths \<or> kind ev = PrepareDir \<or> kind ev = NativeMount
               \<or> kind ev = FileProbe \<or> kind ev = Staging \<or> kind ev = Bridge"
        by blast
      with vfat show ?thesis by (intro exI [where x = new]) auto
    next
      case ntfs
      from run b [OF ntfs]
      have "doMount_probed e 1 (emit (NtfsCheck dp) (emit (VfatCheck dp) w1)) = Some (r, w')" by simp
      from doMount_probed_frame [OF this] obtain new where
        "calls w' = calls (emit (NtfsCheck dp) (emit (VfatCheck dp) w1)) @ new"
        "\<forall>ev\<in>set new. kind ev = Paths \<or> kind ev = PrepareDir \<or> kind ev = NativeMount
               \<or> kind ev = FileProbe \<or> kind ev = Staging \<or> kind ev = Bridge"
        by blast
      with ntfs show ?thesis by (intro exI [where x = new]) auto
    next
      case none
      from run c [OF none] have "w' = emit (NtfsCheck dp) (emit (VfatCheck dp) w1)" by simp
      with none show ?thesis by simp
    qed
  qed
  from a b c d show ?thesis by blast
qed

theorem doMount_probe_precedence_witness:
  "doMount env_both_checks_fail world0 =
     Some (Return (- EIO),
           emit (NtfsCheck (mDevPath (vol world0)))
             (emit (VfatCheck (mDevPath (vol world0))) (snd (readMetadata env_both_checks_fail world0))))
   \<and> log_of (doMount env_both_checks_fail world0) =
       [ReadMetadataUntrusted ''/dev/block/vold/public:179:1'',
        NotifyEvent VolumeFsTypeChanged ''vfat'',
        NotifyEvent VolumeFsUuidChanged ''ABCD-1234'',
        NotifyEvent VolumeFsLabelChanged ''SDCARD'',
        VfatCheck ''/dev/block/vold/public:179:1'',
        NtfsCheck ''/dev/block/vold/public:179:1'']"
proof -
  have e: "e_ReadMetadataUntrusted env_both_checks_fail = (\<lambda>p. (0, ''vfat'', ''ABCD-1234'', ''SDCARD''))"
    "e_vfat_Check env_both_checks_fail = (\<lambda>p. - 1)" "e_Ntfs_check env_both_checks_fail = (\<lambda>p. - 1)"
    by (simp_all add: env_both_checks_fail_def env0_def)
  have sup: "mFsType (vol (snd (readMetadata env_both_checks_fail world0))) = ''vfat''
      \<or> mFsType (vol (snd (readMetadata env_both_checks_fail world0))) = ''ntfs''"
    by (simp add: readMetadata_vol e)
  from doMount_probe_precedence [OF sup]
  have "doMount env_both_checks_fail world0 =
     Some (Return (- EIO),
           emit (NtfsCheck (mDevPath (vol world0)))
             (emit (VfatCheck (mDevPath (vol world0))) (snd (readMetadata env_both_checks_fail world0))))"
    by (simp add: e)
  then show ?thesis
    by (simp add: log_of_def readMetadata_calls e world0_vol world0_calls)
qed

text \<open>
  C10. The naming scheme: the id is "public:" followed by the major and the minor number
  in decimal, separated by a colon ("public:179:1" for device 179:1); the stable name is
  the UUID when there is one and the id otherwise; every mount that got past the probe
  leaves the raw path at "/mnt/media_rw/" and the three FUSE paths at
  "/mnt/runtime/default/", "/mnt/runtime/read/" and "/mnt/runtime/write/", each followed by
  the stable name.
\<close>

theorem naming_scheme:
  "getId (PublicVolume_ctor b d)
      = ''public:'' @ format_u (unat (dev_major d)) @ '':'' @ format_u (unat (dev_minor d))
   \<and> getId (PublicVolume_ctor b \<lparr>dev_major = 179, dev_minor = 1\<rparr>) = ''public:179:1''
   \<and> stableName v = (if mFsUuid v = [] then getId v else mFsUuid v)
   \<and> (\<forall>r w'. doMount e w = Some (r, w') \<and> r \<noteq> Return (- EIO) \<longrightarrow>
         mRawPath (vol w') = ''/mnt/media_rw/'' @ stableName (vol w')
       \<and> mFuseDefault (vol w') = ''/mnt/runtime/default/'' @ stableName (vol w')
       \<and> mFuseRead (vol w') = ''/mnt/runtime/read/'' @ stableName (vol w')
       \<and> mFuseWrite (vol w') = ''/mnt/runtime/write/'' @ stableName (vol w'))"
proof -
  have paths: "mRawPath (vol w') = ''/mnt/media_rw/'' @ stableName (vol w')
       \<and> mFuseDefault (vol w') = ''/mnt/runtime/default/'' @ stableName (vol w')
       \<and> mFuseRead (vol w') = ''/mnt/runtime/read/'' @ stableName (vol w')
       \<and> mFuseWrite (vol w') = ''/mnt/runtime/write/'' @ stableName (vol w')"
    if run: "doMount e w = Some (r, w')" and r: "r \<noteq> Return (- EIO)" for r w'
  proof -
    from doMount_frame [OF run] r
    have v: "vol w' = (vol (snd (readMetadata e w)))
                 \<lparr>mRawPath := ''/mnt/media_rw/'' @ stableName (vol (snd (readMetadata e w))),
                  mFuseDefault := ''/mnt/runtime/default/'' @ stableName (vol (snd (readMetadata e w))),
                  mFuseRead := ''/mnt/runtime/read/'' @ stableName (vol (snd (readMetadata e w))),
                  mFuseWrite := ''/mnt/runtime/write/'' @ stableName (vol (snd (readMetadata e w))),
                  mFusePid := mFusePid (vol w')\<rparr>"
      by blast
    have "stableName (vol w') = stableName (vol (snd (readMetadata e w)))"
      by (subst v) (simp add: stableName_def getId_def)
    then show ?thesis by (subst (1 2 3 4) v) simp
  qed
  have "getId (PublicVolume_ctor b d)
      = ''public:'' @ format_u (unat (dev_major d)) @ '':'' @ format_u (unat (dev_minor d))"
    by (simp add: PublicVolume_ctor_def setId_def getId_def)
  moreover have "getId (PublicVolume_ctor b \<lparr>dev_major = 179, dev_minor = 1\<rparr>) = ''public:179:1''"
    by (simp add: PublicVolume_ctor_def setId_def getId_def format_u_179 format_u_1)
  moreover have "stableName v = (if mFsUuid v = [] then getId v else mFsUuid v)"
    by (simp add: stableName_def)
  ultimately show ?thesis using paths by blast
qed

theorem naming_scheme_witness:
  "(\<exists>w'. doMount env_no_uuid hidden0 = Some (Return OK, w')
      \<and> mRawPath (vol w') = ''/mnt/media_rw/public:179:1''
      \<and> mFuseDefault (vol w') = ''/mnt/runtime/default/public:179:1''
      \<and> mFuseRead (vol w') = ''/mnt/runtime/read/public:179:1''
      \<and> mFuseWrite (vol w') = ''/mnt/runtime/write/public:179:1'')
   \<and> (\<exists>w'. doMount env0 hidden0 = Some (Return OK, w')
      \<and> mRawPath (vol w') = ''/mnt/media_rw/ABCD-1234''
      \<and> mFuseDefault (vol w') = ''/mnt/runtime/default/ABCD-1234''
      \<and> mFuseRead (vol w') = ''/mnt/runtime/read/ABCD-1234''
      \<and> mFuseWrite (vol w') = ''/mnt/runtime/write/ABCD-1234'')"
proof -
  have ok: "Return OK \<noteq> Return (- EIO)" by (simp add: OK_def EIO_def)
  obtain wa where a: "doMount env_no_uuid hidden0 = Some (Return OK, wa)"
    and sa: "stableName (vol wa) = ''public:179:1''"
    using hidden_no_uuid_run by blast
  obtain wb where b: "doMount env0 hidden0 = Some (Return OK, wb)"
    and sb: "stableName (vol wb) = ''ABCD-1234''"
    using hidden_uuid_run by blast
  from naming_scheme [of _ _ _ env_no_uuid hidden0] a ok sa
  have "mRawPath (vol wa) = ''/mnt/media_rw/public:179:1''
      \<and> mFuseDefault (vol wa) = ''/mnt/runtime/default/public:179:1''
      \<and> mFuseRead (vol wa) = ''/mnt/runtime/read/public:179:1''
      \<and> mFuseWrite (vol wa) = ''/mnt/runtime/write/public:179:1''"
    by simp
  moreover
  from naming_scheme [of _ _ _ env0 hidden0] b ok sb
  have "mRawPath (vol wb) = ''/mnt/media_rw/ABCD-1234''
      \<and> mFuseDefault (vol wb) = ''/mnt/runtime/default/ABCD-1234''
      \<and> mFuseRead (vol wb) = ''/mnt/runtime/read/ABCD-1234''
      \<and> mFuseWrite (vol wb) = ''/mnt/runtime/write/ABCD-1234''"
    by simp
  ultimately show ?thesis using a b by blast
qed

text \<open>
  C9. A volume whose "visible" flag is not set: at the visibility test after the hooks
  and the staging (lines 240-243) the mount returns success at once, the state and the log
  being what they were. Counted from the label after the hooks, it returns success (the staging of the primary volume, when there is one, has to
  come back from its retried \<^verbatim>\<open>mkdir\<close>), the recorded pid is what it was, and no call of
  the bridge (device sample, fork, exec, sleep) is in the log. The same holds for the pid
  and the log of every completed \<^verbatim>\<open>doMount\<close> call of such a volume.
\<close>

theorem hidden_volume_spawns_no_bridge:
  assumes nv: "getMountFlags (vol w) AND kVisible = 0"
  shows "spinUpFuse e sn w = Some (Return OK, w)
     \<and> ((getMountFlags (vol w) AND kPrimary \<noteq> 0 \<longrightarrow>
             (\<exists>n. \<not> (fst (e_mkdir e (mRawPath (vol w) @ ''/.android_secure'') n) = - 1
                   \<and> snd (e_mkdir e (mRawPath (vol w) @ ''/.android_secure'') n) = EINTR)))
          \<longrightarrow> (\<exists>w'. uevent_handled e sn w = Some (Return OK, w')
                 \<and> mFusePid (vol w') = mFusePid (vol w)
                 \<and> (\<exists>new. calls w' = calls w @ new \<and> (\<forall>ev\<in>set new. kind ev \<noteq> Bridge))))
     \<and> (\<forall>r w'. doMount e w = Some (r, w') \<longrightarrow>
           mFusePid (vol w') = mFusePid (vol w)
           \<and> (\<exists>new. calls w' = calls w @ new \<and> (\<forall>ev\<in>set new. kind ev \<noteq> Bridge)))"
proof (intro conjI impI allI)
  show "spinUpFuse e sn w = Some (Return OK, w)"
    using nv by (rule spinUpFuse_not_visible)
next
  assume "getMountFlags (vol w) AND kPrimary \<noteq> 0 \<longrightarrow>
             (\<exists>n. \<not> (fst (e_mkdir e (mRawPath (vol w) @ ''/.android_secure'') n) = - 1
                   \<and> snd (e_mkdir e (mRawPath (vol w) @ ''/.android_secure'') n) = EINTR))"
  then obtain d where "getMountFlags (vol w) AND kPrimary \<noteq> 0 \<Longrightarrow>
       \<not> (fst (e_mkdir e (mRawPath (vol w) @ ''/.android_secure'') d) = - 1
          \<and> snd (e_mkdir e (mRawPath (vol w) @ ''/.android_secure'') d) = EINTR)"
    by blast
  from uevent_handled_not_visible [OF nv this, of sn] obtain w' new where
    "uevent_handled e sn w = Some (Return OK, w')" "vol w' = vol w" "calls w' = calls w @ new"
    "\<forall>ev\<in>set new. kind ev = FileProbe \<or> kind ev = Staging"
    by blast
  then show "\<exists>w'. uevent_handled e sn w = Some (Return OK, w')
                 \<and> mFusePid (vol w') = mFusePid (vol w)
                 \<and> (\<exists>new. calls w' = calls w @ new \<and> (\<forall>ev\<in>set new. kind ev \<noteq> Bridge))"
    by (intro exI [where x = w'] conjI exI [where x = new]) auto
next
  fix r w'
  assume run: "doMount e w = Some (r, w')"
  from doMount_frame [OF run] nv obtain new where
    c: "calls w' = calls w @ new" and k: "\<forall>ev\<in>set new. kind ev \<noteq> Bridge"
    and f: "mFusePid (vol w') = (if Fork \<in> set new then fst (e_fork e) else mFusePid (vol w))"
    by blast
  have "Fork \<notin> set new" using k by fastforce
  with f show "mFusePid (vol w') = mFusePid (vol w)" by simp
  from c k show "\<exists>new. calls w' = calls w @ new \<and> (\<forall>ev\<in>set new. kind ev \<noteq> Bridge)" by blast
qed

theorem hidden_volume_spawns_no_bridge_witness:
  "getMountFlags (vol primary0) AND kVisible = 0
   \<and> getMountFlags (vol primary0) AND kPrimary = 1
   \<and> e_mkdir env_mkdir_interrupted (mRawPath (vol primary0) @ ''/.android_secure'') 1 = (0, 0)
   \<and> (\<exists>w'. uevent_handled env_mkdir_interrupted ''ABCD-1234'' primary0 = Some (Return OK, w')
          \<and> mFusePid (vol w') = mFusePid (vol primary0)
          \<and> (\<exists>new. calls w' = calls primary0 @ new \<and> list_all (\<lambda>ev. kind ev \<noteq> Bridge) new))
   \<and> getMountFlags (vol hidden0) AND kVisible = 0
   \<and> spinUpFuse env0 ''ABCD-1234'' hidden0 = Some (Return OK, hidden0)
   \<and> (\<exists>w'. doMount env0 hidden0 = Some (Return OK, w')
          \<and> mFusePid (vol w') = mFusePid (vol hidden0)
          \<and> (\<exists>new. calls w' = calls hidden0 @ new \<and> list_all (\<lambda>ev. kind ev \<noteq> Bridge) new))"
proof -
  have nvp: "getMountFlags (vol primary0) AND kVisible = 0"
    and pp: "getMountFlags (vol primary0) AND kPrimary = 1"
    by (simp_all add: primary0_def hidden0_vol getMountFlags_def kVisible_def kPrimary_def)
  have mk: "e_mkdir env_mkdir_interrupted (mRawPath (vol primary0) @ ''/.android_secure'') 1 = (0, 0)"
    by (simp add: env_mkdir_interrupted_def)
  then have ends: "\<exists>n. \<not> (fst (e_mkdir env_mkdir_interrupted (mRawPath (vol primary0) @ ''/.android_secure'') n) = - 1
       \<and> snd (e_mkdir env_mkdir_interrupted (mRawPath (vol primary0) @ ''/.android_secure'') n) = EINTR)"
    by (intro exI [where x = 1]) simp
  have nv: "getMountFlags (vol hidden0) AND kVisible = 0"
    by (simp add: hidden0_vol getMountFlags_def)
  obtain wb where b: "doMount env0 hidden0 = Some (Return OK, wb)"
    using hidden_uuid_run by blast
  from hidden_volume_spawns_no_bridge [OF nvp, of env_mkdir_interrupted "''ABCD-1234''"] ends
  have 1: "\<exists>w'. uevent_handled env_mkdir_interrupted ''ABCD-1234'' primary0 = Some (Return OK, w')
          \<and> mFusePid (vol w') = mFusePid (vol primary0)
          \<and> (\<exists>new. calls w' = calls primary0 @ new \<and> list_all (\<lambda>ev. kind ev \<noteq> Bridge) new)"
    by (simp add: list_all_iff)
  from hidden_volume_spawns_no_bridge [OF nv, of env0] b
  have 2: "\<exists>w'. doMount env0 hidden0 = Some (Return OK, w')
          \<and> mFusePid (vol w') = mFusePid (vol hidden0)
          \<and> (\<exists>new. calls w' = calls hidden0 @ new \<and> list_all (\<lambda>ev. kind ev \<noteq> Bridge) new)"
    by (simp add: list_all_iff)
  from hidden_volume_spawns_no_bridge [OF nv, of env0 "''ABCD-1234''"]
  have 3: "spinUpFuse env0 ''ABCD-1234'' hidden0 = Some (Return OK, hidden0)"
    by (rule conjunct1)
  from nvp pp mk 1 nv 2 3 show ?thesis by blast
qed

text \<open>
  C6. The four path fields of the mount session are all empty or all populated: so they
  are at construction; a completed \<^verbatim>\<open>doMount\<close> keeps it so, and a successful one leaves
  all four populated; a completed \<^verbatim>\<open>doUnmount\<close> leaves all four empty.
\<close>

theorem session_paths_all_or_none:
  "session_consistent (PublicVolume_ctor b d)
   \<and> (\<forall>r w'. session_consistent (vol w) \<and> doMount e w = Some (r, w') \<longrightarrow>
         session_consistent (vol w')
         \<and> (r = Return OK \<longrightarrow> mRawPath (vol w') \<noteq> [] \<and> mFuseDefault (vol w') \<noteq> []
                \<and> mFuseRead (vol w') \<noteq> [] \<and> mFuseWrite (vol w') \<noteq> []))
   \<and> (\<forall>s w'. doUnmount e w = Some (s, w') \<longrightarrow>
         mRawPath (vol w') = [] \<and> mFuseDefault (vol w') = []
         \<and> mFuseRead (vol w') = [] \<and> mFuseWrite (vol w') = [])"
proof (intro conjI allI impI)
  show "session_consistent (PublicVolume_ctor b d)"
    by (simp add: session_consistent_def PublicVolume_ctor_def setId_def)
next
  fix r w'
  assume a: "session_consistent (vol w) \<and> doMount e w = Some (r, w')"
  then have inv: "session_consistent (vol w)" and run: "doMount e w = Some (r, w')" by simp_all
  from doMount_frame [OF run]
  consider (early) "r = Return (- EIO)" "vol w' = vol (snd (readMetadata e w))"
    | (mounted) "vol w' = (vol (snd (readMetadata e w)))
                 \<lparr>mRawPath := ''/mnt/media_rw/'' @ stableName (vol (snd (readMetadata e w))),
                  mFuseDefault := ''/mnt/runtime/default/'' @ stableName (vol (snd (readMetadata e w))),
                  mFuseRead := ''/mnt/runtime/read/'' @ stableName (vol (snd (readMetadata e w))),
                  mFuseWrite := ''/mnt/runtime/write/'' @ stableName (vol (snd (readMetadata e w))),
                  mFusePid := mFusePid (vol w')\<rparr>"
    by blast
  then have "session_consistent (vol w')
         \<and> (r = Return OK \<longrightarrow> mRawPath (vol w') \<noteq> [] \<and> mFuseDefault (vol w') \<noteq> []
                \<and> mFuseRead (vol w') \<noteq> [] \<and> mFuseWrite (vol w') \<noteq> [])"
  proof cases
    case early
    then show ?thesis using inv
      by (simp add: session_consistent_def readMetadata_vol OK_def EIO_def)
  next
    case mounted
    show ?thesis
      by (subst (1 2 3 4 5) mounted) (simp add: session_consistent_def)
  qed
  then show "session_consistent (vol w')"
    and "r = Return OK \<Longrightarrow> mRawPath (vol w') \<noteq> []"
    and "r = Return OK \<Longrightarrow> mFuseDefault (vol w') \<noteq> []"
    and "r = Return OK \<Longrightarrow> mFuseRead (vol w') \<noteq> []"
    and "r = Return OK \<Longrightarrow> mFuseWrite (vol w') \<noteq> []"
    by simp_all
next
  fix s w'
  assume run: "doUnmount e w = Some (s, w')"
  from doUnmount_frame [OF run]
  have v: "vol w' = (vol w)\<lparr>mFusePid := (if 0 < mFusePid (vol w) then 0 else mFusePid (vol w)),
                       mFuseDefault := [], mFuseRead := [], mFuseWrite := [], mRawPath := []\<rparr>"
    by blast
  show "mRawPath (vol w') = []" "mFuseDefault (vol w') = []"
    "mFuseRead (vol w') = []" "mFuseWrite (vol w') = []"
    by (simp_all add: v)
qed

theorem session_paths_all_or_none_witness:
  "session_consistent (vol hidden0)
   \<and> (\<exists>w'. doMount env0 hidden0 = Some (Return OK, w') \<and> session_consistent (vol w')
          \<and> mRawPath (vol w') \<noteq> [] \<and> mFuseDefault (vol w') \<noteq> []
          \<and> mFuseRead (vol w') \<noteq> [] \<and> mFuseWrite (vol w') \<noteq> [])
   \<and> (\<exists>w'. doUnmount env0 bridged0 = Some (OK, w')
          \<and> mRawPath (vol w') = [] \<and> mFuseDefault (vol w') = []
          \<and> mFuseRead (vol w') = [] \<and> mFuseWrite (vol w') = [])"
proof -
  have inv: "session_consistent (vol hidden0)"
    by (simp add: session_consistent_def hidden0_vol)
  obtain wa where a: "doMount env0 hidden0 = Some (Return OK, wa)"
    using hidden_uuid_run by blast
  obtain wb where b: "doUnmount env0 bridged0 = Some (OK, wb)"
    using doUnmount_returns [of bridged0 env0 0] by (auto simp: env0_simps EINTR_def)
  from session_paths_all_or_none [of _ _ hidden0 env0] inv a
  have 1: "session_consistent (vol wa)
          \<and> mRawPath (vol wa) \<noteq> [] \<and> mFuseDefault (vol wa) \<noteq> []
          \<and> mFuseRead (vol wa) \<noteq> [] \<and> mFuseWrite (vol wa) \<noteq> []"
    by blast
  from session_paths_all_or_none [of _ _ bridged0 env0] b
  have 2: "mRawPath (vol wb) = [] \<and> mFuseDefault (vol wb) = []
          \<and> mFuseRead (vol wb) = [] \<and> mFuseWrite (vol wb) = []"
    by blast
  from inv a b 1 2 show ?thesis by blast
qed

text \<open>
  C2. The recorded pid of the FUSE daemon: it is zero at construction; \<^verbatim>\<open>doMount\<close>
  changes it only by storing what \<^verbatim>\<open>fork\<close> answered (the pid of the child, or -1 when
  the fork failed); \<^verbatim>\<open>doUnmount\<close> resets a positive pid to zero after the signal and
  the wait, and leaves a pid that is not positive as it is.
\<close>

theorem mFusePid_lifecycle:
  "mFusePid (PublicVolume_ctor b d) = 0
   \<and> (\<forall>r w'. doMount e w = Some (r, w') \<longrightarrow>
         (\<exists>new. calls w' = calls w @ new
            \<and> mFusePid (vol w') = (if Fork \<in> set new then fst (e_fork e) else mFusePid (vol w))))
   \<and> (\<forall>s w'. doUnmount e w = Some (s, w') \<longrightarrow>
         mFusePid (vol w') = (if 0 < mFusePid (vol w) then 0 else mFusePid (vol w))
         \<and> (0 < mFusePid (vol w) \<longrightarrow>
              (\<exists>n rest. calls w' = calls w
                  @ Kill (mFusePid (vol w)) SIGTERM (e_kill e (mFusePid (vol w)) SIGTERM)
                  # replicate (Suc n) (Waitpid (mFusePid (vol w))) @ rest)))"
proof (intro conjI allI impI)
  show "mFusePid (PublicVolume_ctor b d) = 0"
    by (simp add: PublicVolume_ctor_def setId_def)
next
  fix r w'
  assume "doMount e w = Some (r, w')"
  from doMount_frame [OF this]
  show "\<exists>new. calls w' = calls w @ new
            \<and> mFusePid (vol w') = (if Fork \<in> set new then fst (e_fork e) else mFusePid (vol w))"
    by blast
next
  fix s w'
  assume run: "doUnmount e w = Some (s, w')"
  from doUnmount_frame [OF run] obtain n where
    v: "vol w' = (vol w)\<lparr>mFusePid := (if 0 < mFusePid (vol w) then 0 else mFusePid (vol w)),
                       mFuseDefault := [], mFuseRead := [], mFuseWrite := [], mRawPath := []\<rparr>"
    and c: "calls w' = calls w @
            (if 0 < mFusePid (vol w)
             then Kill (mFusePid (vol w)) SIGTERM (e_kill e (mFusePid (vol w)) SIGTERM)
                    # replicate (Suc n) (Waitpid (mFusePid (vol w)))
             else []) @
          [ForceUnmount kAsecPath (e_ForceUnmount e kAsecPath),
           ForceUnmount (mFuseDefault (vol w)) (e_ForceUnmount e (mFuseDefault (vol w))),
           ForceUnmount (mFuseRead (vol w)) (e_ForceUnmount e (mFuseRead (vol w))),
           ForceUnmount (mFuseWrite (vol w)) (e_ForceUnmount e (mFuseWrite (vol w))),
           ForceUnmount (mRawPath (vol w)) (e_ForceUnmount e (mRawPath (vol w))),
           Rmdir (mFuseDefault (vol w)) (e_rmdir e (mFuseDefault (vol w))),
           Rmdir (mFuseRead (vol w)) (e_rmdir e (mFuseRead (vol w))),
           Rmdir (mFuseWrite (vol w)) (e_rmdir e (mFuseWrite (vol w))),
           Rmdir (mRawPath (vol w)) (e_rmdir e (mRawPath (vol w)))]"
    by blast
  show "mFusePid (vol w') = (if 0 < mFusePid (vol w) then 0 else mFusePid (vol w))"
    by (subst v) simp
  show "\<exists>n rest. calls w' = calls w
                  @ Kill (mFusePid (vol w)) SIGTERM (e_kill e (mFusePid (vol w)) SIGTERM)
                  # replicate (Suc n) (Waitpid (mFusePid (vol w))) @ rest"
    if "0 < mFusePid (vol w)"
    using that c by (intro exI [where x = n]) auto
qed

theorem mFusePid_lifecycle_witness:
  "(\<exists>w' new. doMount env0 world0 = Some (Return OK, w')
        \<and> calls w' = calls world0 @ new \<and> Fork \<in> set new \<and> mFusePid (vol w') = 4321)
   \<and> (\<exists>w' new. doMount env_fork_fails world0 = Some (Return (- 12), w')
        \<and> calls w' = calls world0 @ new
        \<and> mFusePid (vol w') = (if Fork \<in> set new then - 1 else 0))
   \<and> (\<exists>w'. doUnmount env0 bridged0 = Some (OK, w') \<and> mFusePid (vol bridged0) = 4321
        \<and> mFusePid (vol w') = 0)
   \<and> (\<exists>w'. doUnmount env0 unforked0 = Some (OK, w') \<and> mFusePid (vol w') = - 1)"
proof -
  obtain wa where a: "doMount env_fork_fails world0 = Some (Return (- 12), wa)"
    using fork_failure_run by blast
  obtain wb where b: "doUnmount env0 bridged0 = Some (OK, wb)"
    using doUnmount_returns [of bridged0 env0 0] by (auto simp: env0_simps EINTR_def)
  obtain wc where c: "doUnmount env0 unforked0 = Some (OK, wc)"
    using doUnmount_returns [of unforked0 env0 0] by (auto simp: env0_simps EINTR_def)
  have pb: "mFusePid (vol bridged0) = 4321" by (simp add: bridged0_vol)
  have pc: "mFusePid (vol unforked0) = - 1" by (simp add: unforked0_def)
  have fk: "fst (e_fork env_fork_fails) = - 1" by (simp add: env_fork_fails_def)
  have p0: "mFusePid (vol world0) = 0" by (simp add: world0_vol)
  from mFusePid_lifecycle [where e = env_fork_fails and w = world0,
      THEN conjunct2, THEN conjunct1, rule_format, OF a]
  obtain new where n: "calls wa = calls world0 @ new"
    "mFusePid (vol wa) = (if Fork \<in> set new then fst (e_fork env_fork_fails)
                          else mFusePid (vol world0))"
    by blast
  have 1: "\<exists>new. calls wa = calls world0 @ new
        \<and> mFusePid (vol wa) = (if Fork \<in> set new then - 1 else 0)"
  proof (intro exI conjI)
    show "calls wa = calls world0 @ new" by (rule n(1))
    show "mFusePid (vol wa) = (if Fork \<in> set new then - 1 else 0)"
      unfolding n(2) fk p0 by (rule refl)
  qed
  from mFusePid_lifecycle [where e = env0 and w = bridged0,
      THEN conjunct2, THEN conjunct2, rule_format, OF b] pb
  have 2: "mFusePid (vol wb) = 0" by simp
  from mFusePid_lifecycle [where e = env0 and w = unforked0,
      THEN conjunct2, THEN conjunct2, rule_format, OF c] pc
  have 3: "mFusePid (vol wc) = - 1" by simp
  obtain wd where d: "doMount env0 world0 = Some (Return OK, wd)"
    and pd: "mFusePid (vol wd) = 4321"
    using bridge_run by blast
  from mFusePid_lifecycle [where e = env0 and w = world0,
      THEN conjunct2, THEN conjunct1, rule_format, OF d]
  obtain new0 where n0: "calls wd = calls world0 @ new0"
    "mFusePid (vol wd) = (if Fork \<in> set new0 then fst (e_fork env0) else mFusePid (vol world0))"
    by blast
  have "Fork \<in> set new0"
    using n0(2) pd p0 by (auto split: if_splits)
  with d n0(1) pd
  have 0: "\<exists>w' new. doMount env0 world0 = Some (Return OK, w')
        \<and> calls w' = calls world0 @ new \<and> Fork \<in> set new \<and> mFusePid (vol w') = 4321"
    by blast
  from a b c 0 1 2 3 pb show ?thesis by blast
qed

text \<open>The invariant in the wording "non-zero only while the process is alive" fails:
  after a \<^verbatim>\<open>doMount\<close> whose fork fails, the recorded pid is -1, not zero.\<close>

theorem failed_fork_leaves_pid_counterexample:
  "outcome (doMount env_fork_fails world0) = Some (Return (- 12), - 1)"
  using fork_failure_run by (auto simp: outcome_def)

text \<open>
  C4. \<^verbatim>\<open>doUnmount\<close> and the three hook slots: a slot whose stored storage name equals
  the stable name of the volume has its path and storage name reset to empty and its flag
  to "0"; a slot whose stored storage name differs keeps its three properties as they
  were.
\<close>

theorem doUnmount_clears_own_slots_only:
  assumes "doUnmount e w = Some (s, w')"
  shows "(if property_get w ''sys.update.storage'' [] = stableName (vol w)
          then props w' ''sys.update.path'' = Some [] \<and> props w' ''sys.update.storage'' = Some []
               \<and> props w' ''sys.update.trigger'' = Some ''0''
          else props w' ''sys.update.path'' = props w ''sys.update.path''
               \<and> props w' ''sys.update.storage'' = props w ''sys.update.storage''
               \<and> props w' ''sys.update.trigger'' = props w ''sys.update.trigger'')
     \<and> (if property_get w ''sys.startup.storage'' [] = stableName (vol w)
          then props w' ''sys.startup.path'' = Some [] \<and> props w' ''sys.startup.storage'' = Some []
               \<and> props w' ''sys.startup.trigger'' = Some ''0''
          else props w' ''sys.startup.path'' = props w ''sys.startup.path''
               \<and> props w' ''sys.startup.storage'' = props w ''sys.startup.storage''
               \<and> props w' ''sys.startup.trigger'' = props w ''sys.startup.trigger'')
     \<and> (if property_get w ''sys.cust.storage'' [] = stableName (vol w)
          then props w' ''sys.cust.path'' = Some [] \<and> props w' ''sys.cust.storage'' = Some []
               \<and> props w' ''sys.cust.trigger'' = Some ''0''
          else props w' ''sys.cust.path'' = props w ''sys.cust.path''
               \<and> props w' ''sys.cust.storage'' = props w ''sys.cust.storage''
               \<and> props w' ''sys.cust.trigger'' = props w ''sys.cust.trigger'')"
proof -
  from doUnmount_frame [OF assms] have p: "props w' = props (clear_slots w)" by blast
  show ?thesis
    unfolding p by (simp add: clear_slots_update)
qed

theorem doUnmount_clears_own_slots_only_witness:
  "\<exists>w'. doUnmount env0 slots0 = Some (OK, w')
     \<and> stableName (vol slots0) = ''ABCD-1234''
     \<and> property_get slots0 ''sys.update.storage'' [] = ''ABCD-1234''
     \<and> property_get slots0 ''sys.startup.storage'' [] = ''EF01-5678''
     \<and> property_get slots0 ''sys.cust.storage'' [] = []
     \<and> props w' ''sys.update.path'' = Some [] \<and> props w' ''sys.update.storage'' = Some []
     \<and> props w' ''sys.update.trigger'' = Some ''0''
     \<and> props w' ''sys.startup.path'' = Some ''/mnt/media_rw/EF01-5678/startup/start_up.sh''
     \<and> props w' ''sys.startup.storage'' = Some ''EF01-5678''
     \<and> props w' ''sys.startup.trigger'' = Some ''1''
     \<and> props w' ''sys.cust.path'' = None \<and> props w' ''sys.cust.storage'' = None
     \<and> props w' ''sys.cust.trigger'' = None"
proof -
  have v: "vol slots0 = vol bridged0" by (simp add: slots0_def)
  obtain wa where a: "doUnmount env0 slots0 = Some (OK, wa)"
    using doUnmount_returns [of slots0 env0 0] by (auto simp: env0_simps EINTR_def)
  have sn: "stableName (vol slots0) = ''ABCD-1234''"
    by (simp add: v bridged0_vol stableName_def)
  have g: "property_get slots0 ''sys.update.storage'' [] = ''ABCD-1234''"
    "property_get slots0 ''sys.startup.storage'' [] = ''EF01-5678''"
    "property_get slots0 ''sys.cust.storage'' [] = []"
    by (simp_all add: slots0_def property_get_def)
  have old: "props slots0 ''sys.startup.path'' = Some ''/mnt/media_rw/EF01-5678/startup/start_up.sh''"
    "props slots0 ''sys.startup.storage'' = Some ''EF01-5678''"
    "props slots0 ''sys.startup.trigger'' = Some ''1''"
    "props slots0 ''sys.cust.path'' = None" "props slots0 ''sys.cust.storage'' = None"
    "props slots0 ''sys.cust.trigger'' = None"
    by (simp_all add: slots0_def)
  from doUnmount_clears_own_slots_only [OF a]
  have "props wa ''sys.update.path'' = Some [] \<and> props wa ''sys.update.storage'' = Some []
     \<and> props wa ''sys.update.trigger'' = Some ''0''
     \<and> props wa ''sys.startup.path'' = Some ''/mnt/media_rw/EF01-5678/startup/start_up.sh''
     \<and> props wa ''sys.startup.storage'' = Some ''EF01-5678''
     \<and> props wa ''sys.startup.trigger'' = Some ''1''
     \<and> props wa ''sys.cust.path'' = None \<and> props wa ''sys.cust.storage'' = None
     \<and> props wa ''sys.cust.trigger'' = None"
    by (simp add: sn g old)
  with a sn g show ?thesis by blast
qed

text \<open>
  C5. \<^verbatim>\<open>doUnmount\<close> is best-effort and idempotent: it never returns anything but
  success; when the wait for the daemon ends (there is none when no pid is recorded) it
  returns success, and the log holds every teardown call in order, each with the result it
  had, whatever these results are; a second call right after the first returns success in
  every environment, making only the forced unmounts and \<^verbatim>\<open>rmdir\<close>s on the paths that
  are now empty.
\<close>

theorem doUnmount_best_effort_idempotent:
  "(\<forall>s w'. doUnmount e w = Some (s, w') \<longrightarrow> s = OK)
   \<and> ((0 < mFusePid (vol w) \<longrightarrow>
         (\<exists>n. \<not> (fst (e_waitpid e (mFusePid (vol w)) n) = - 1
                \<and> snd (e_waitpid e (mFusePid (vol w)) n) = EINTR)))
       \<longrightarrow> (\<exists>w' n. doUnmount e w = Some (OK, w')
             \<and> calls w' = calls w @
                 (if 0 < mFusePid (vol w)
                  then Kill (mFusePid (vol w)) SIGTERM (e_kill e (mFusePid (vol w)) SIGTERM)
                         # replicate (Suc n) (Waitpid (mFusePid (vol w)))
                  else []) @
                 [ForceUnmount kAsecPath (e_ForceUnmount e kAsecPath),
                  ForceUnmount (mFuseDefault (vol w)) (e_ForceUnmount e (mFuseDefault (vol w))),
                  ForceUnmount (mFuseRead (vol w)) (e_ForceUnmount e (mFuseRead (vol w))),
                  ForceUnmount (mFuseWrite (vol w)) (e_ForceUnmount e (mFuseWrite (vol w))),
                  ForceUnmount (mRawPath (vol w)) (e_ForceUnmount e (mRawPath (vol w))),
                  Rmdir (mFuseDefault (vol w)) (e_rmdir e (mFuseDefault (vol w))),
                  Rmdir (mFuseRead (vol w)) (e_rmdir e (mFuseRead (vol w))),
                  Rmdir (mFuseWrite (vol w)) (e_rmdir e (mFuseWrite (vol w))),
                  Rmdir (mRawPath (vol w)) (e_rmdir e (mRawPath (vol w)))]
             \<and> (\<forall>e2. \<exists>w''. doUnmount e2 w' = Some (OK, w'')
                   \<and> calls w'' = calls w' @
                       [ForceUnmount kAsecPath (e_ForceUnmount e2 kAsecPath),
                        ForceUnmount [] (e_ForceUnmount e2 []),
                        ForceUnmount [] (e_ForceUnmount e2 []),
                        ForceUnmount [] (e_ForceUnmount e2 []),
                        ForceUnmount [] (e_ForceUnmount e2 []),
                        Rmdir [] (e_rmdir e2 []), Rmdir [] (e_rmdir e2 []),
                        Rmdir [] (e_rmdir e2 []), Rmdir [] (e_rmdir e2 [])])))"
proof (intro conjI allI impI)
  fix s w'
  assume "doUnmount e w = Some (s, w')"
  then show "s = OK" by (rule doUnmount_Some(1))
next
  assume "0 < mFusePid (vol w) \<longrightarrow>
         (\<exists>n. \<not> (fst (e_waitpid e (mFusePid (vol w)) n) = - 1
                \<and> snd (e_waitpid e (mFusePid (vol w)) n) = EINTR))"
  then obtain d where "0 < mFusePid (vol w) \<Longrightarrow>
     \<not> (fst (e_waitpid e (mFusePid (vol w)) d) = - 1 \<and> snd (e_waitpid e (mFusePid (vol w)) d) = EINTR)"
    by blast
  from doUnmount_returns [OF this] obtain w' where run: "doUnmount e w = Some (OK, w')" by blast
  from doUnmount_frame [OF run] obtain n where
    v: "vol w' = (vol w)\<lparr>mFusePid := (if 0 < mFusePid (vol w) then 0 else mFusePid (vol w)),
                       mFuseDefault := [], mFuseRead := [], mFuseWrite := [], mRawPath := []\<rparr>"
    and c: "calls w' = calls w @
            (if 0 < mFusePid (vol w)
             then Kill (mFusePid (vol w)) SIGTERM (e_kill e (mFusePid (vol w)) SIGTERM)
                    # replicate (Suc n) (Waitpid (mFusePid (vol w)))
             else []) @
          [ForceUnmount kAsecPath (e_ForceUnmount e kAsecPath),
           ForceUnmount (mFuseDefault (vol w)) (e_ForceUnmount e (mFuseDefault (vol w))),
           ForceUnmount (mFuseRead (vol w)) (e_ForceUnmount e (mFuseRead (vol w))),
           ForceUnmount (mFuseWrite (vol w)) (e_ForceUnmount e (mFuseWrite (vol w))),
           ForceUnmount (mRawPath (vol w)) (e_ForceUnmount e (mRawPath (vol w))),
           Rmdir (mFuseDefault (vol w)) (e_rmdir e (mFuseDefault (vol w))),
           Rmdir (mFuseRead (vol w)) (e_rmdir e (mFuseRead (vol w))),
           Rmdir (mFuseWrite (vol w)) (e_rmdir e (mFuseWrite (vol w))),
           Rmdir (mRawPath (vol w)) (e_rmdir e (mRawPath (vol w)))]"
    by blast
  have idle: "\<not> 0 < mFusePid (vol w')" by (subst v) simp
  have paths: "mFuseDefault (vol w') = []" "mFuseRead (vol w') = []" "mFuseWrite (vol w') = []"
    "mRawPath (vol w') = []"
    by (simp_all add: v)
  have again: "\<exists>w''. doUnmount e2 w' = Some (OK, w'')
                   \<and> calls w'' = calls w' @
                       [ForceUnmount kAsecPath (e_ForceUnmount e2 kAsecPath),
                        ForceUnmount [] (e_ForceUnmount e2 []),
                        ForceUnmount [] (e_ForceUnmount e2 []),
                        ForceUnmount [] (e_ForceUnmount e2 []),
                        ForceUnmount [] (e_ForceUnmount e2 []),
                        Rmdir [] (e_rmdir e2 []), Rmdir [] (e_rmdir e2 []),
                        Rmdir [] (e_rmdir e2 []), Rmdir [] (e_rmdir e2 [])]" for e2
  proof -
    from doUnmount_returns [of w' e2 0] idle obtain w'' where r2: "doUnmount e2 w' = Some (OK, w'')"
      by blast
    from doUnmount_frame [OF r2] idle paths
    have "calls w'' = calls w' @
                       [ForceUnmount kAsecPath (e_ForceUnmount e2 kAsecPath),
                        ForceUnmount [] (e_ForceUnmount e2 []),
                        ForceUnmount [] (e_ForceUnmount e2 []),
                        ForceUnmount [] (e_ForceUnmount e2 []),
                        ForceUnmount [] (e_ForceUnmount e2 []),
                        Rmdir [] (e_rmdir e2 []), Rmdir [] (e_rmdir e2 []),
                        Rmdir [] (e_rmdir e2 []), Rmdir [] (e_rmdir e2 [])]"
      by simp
    with r2 show ?thesis by blast
  qed
  from run c again
  show "\<exists>w' n. doUnmount e w = Some (OK, w')
             \<and> calls w' = calls w @
                 (if 0 < mFusePid (vol w)
                  then Kill (mFusePid (vol w)) SIGTERM (e_kill e (mFusePid (vol w)) SIGTERM)
                         # replicate (Suc n) (Waitpid (mFusePid (vol w)))
                  else []) @
                 [ForceUnmount kAsecPath (e_ForceUnmount e kAsecPath),
                  ForceUnmount (mFuseDefault (vol w)) (e_ForceUnmount e (mFuseDefault (vol w))),
                  ForceUnmount (mFuseRead (vol w)) (e_ForceUnmount e (mFuseRead (vol w))),
                  ForceUnmount (mFuseWrite (vol w)) (e_ForceUnmount e (mFuseWrite (vol w))),
                  ForceUnmount (mRawPath (vol w)) (e_ForceUnmount e (mRawPath (vol w))),
                  Rmdir (mFuseDefault (vol w)) (e_rmdir e (mFuseDefault (vol w))),
                  Rmdir (mFuseRead (vol w)) (e_rmdir e (mFuseRead (vol w))),
                  Rmdir (mFuseWrite (vol w)) (e_rmdir e (mFuseWrite (vol w))),
                  Rmdir (mRawPath (vol w)) (e_rmdir e (mRawPath (vol w)))]
             \<and> (\<forall>e2. \<exists>w''. doUnmount e2 w' = Some (OK, w'')
                   \<and> calls w'' = calls w' @
                       [ForceUnmount kAsecPath (e_ForceUnmount e2 kAsecPath),
                        ForceUnmount [] (e_ForceUnmount e2 []),
                        ForceUnmount [] (e_ForceUnmount e2 []),
                        ForceUnmount [] (e_ForceUnmount e2 []),
                        ForceUnmount [] (e_ForceUnmount e2 []),
                        Rmdir [] (e_rmdir e2 []), Rmdir [] (e_rmdir e2 []),
                        Rmdir [] (e_rmdir e2 []), Rmdir [] (e_rmdir e2 [])])"
    by blast
qed

theorem doUnmount_best_effort_idempotent_witness:
  "\<exists>w' n. doUnmount env_teardown_fails bridged0 = Some (OK, w')
     \<and> e_waitpid env_teardown_fails 4321 0 = (- 1, 10)
     \<and> calls w' =
         Kill 4321 15 (- 1) # replicate (Suc n) (Waitpid 4321) @
         [ForceUnmount ''/mnt/secure/asec'' (- 1),
          ForceUnmount ''/mnt/runtime/default/ABCD-1234'' (- 1),
          ForceUnmount ''/mnt/runtime/read/ABCD-1234'' (- 1),
          ForceUnmount ''/mnt/runtime/write/ABCD-1234'' (- 1),
          ForceUnmount ''/mnt/media_rw/ABCD-1234'' (- 1),
          Rmdir ''/mnt/runtime/default/ABCD-1234'' (- 1),
          Rmdir ''/mnt/runtime/read/ABCD-1234'' (- 1),
          Rmdir ''/mnt/runtime/write/ABCD-1234'' (- 1),
          Rmdir ''/mnt/media_rw/ABCD-1234'' (- 1)]
     \<and> (\<exists>w''. doUnmount env_teardown_fails w' = Some (OK, w'')
          \<and> calls w'' = calls w' @
              [ForceUnmount ''/mnt/secure/asec'' (- 1),
               ForceUnmount [] (- 1), ForceUnmount [] (- 1), ForceUnmount [] (- 1),
               ForceUnmount [] (- 1),
               Rmdir [] (- 1), Rmdir [] (- 1), Rmdir [] (- 1), Rmdir [] (- 1)])"
proof -
  have e: "e_waitpid env_teardown_fails = (\<lambda>p n. (- 1, 10))" "e_kill env_teardown_fails = (\<lambda>p s. - 1)"
    "e_ForceUnmount env_teardown_fails = (\<lambda>p. - 1)" "e_rmdir env_teardown_fails = (\<lambda>p. - 1)"
    by (simp_all add: env_teardown_fails_def)
  have ends: "0 < mFusePid (vol bridged0) \<longrightarrow>
         (\<exists>n. \<not> (fst (e_waitpid env_teardown_fails (mFusePid (vol bridged0)) n) = - 1
                \<and> snd (e_waitpid env_teardown_fails (mFusePid (vol bridged0)) n) = EINTR))"
    by (simp add: e EINTR_def)
  from doUnmount_best_effort_idempotent [of env_teardown_fails bridged0, THEN conjunct2, THEN mp, OF ends]
  obtain w' n where run: "doUnmount env_teardown_fails bridged0 = Some (OK, w')"
    and c: "calls w' = calls bridged0 @
                 (if 0 < mFusePid (vol bridged0)
                  then Kill (mFusePid (vol bridged0)) SIGTERM
                          (e_kill env_teardown_fails (mFusePid (vol bridged0)) SIGTERM)
                         # replicate (Suc n) (Waitpid (mFusePid (vol bridged0)))
                  else []) @
                 [ForceUnmount kAsecPath (e_ForceUnmount env_teardown_fails kAsecPath),
                  ForceUnmount (mFuseDefault (vol bridged0)) (e_ForceUnmount env_teardown_fails (mFuseDefault (vol bridged0))),
                  ForceUnmount (mFuseRead (vol bridged0)) (e_ForceUnmount env_teardown_fails (mFuseRead (vol bridged0))),
                  ForceUnmount (mFuseWrite (vol bridged0)) (e_ForceUnmount env_teardown_fails (mFuseWrite (vol bridged0))),
                  ForceUnmount (mRawPath (vol bridged0)) (e_ForceUnmount env_teardown_fails (mRawPath (vol bridged0))),
                  Rmdir (mFuseDefault (vol bridged0)) (e_rmdir env_teardown_fails (mFuseDefault (vol bridged0))),
                  Rmdir (mFuseRead (vol bridged0)) (e_rmdir env_teardown_fails (mFuseRead (vol bridged0))),
                  Rmdir (mFuseWrite (vol bridged0)) (e_rmdir env_teardown_fails (mFuseWrite (vol bridged0))),
                  Rmdir (mRawPath (vol bridged0)) (e_rmdir env_teardown_fails (mRawPath (vol bridged0)))]"
    and again: "\<forall>e2. \<exists>w''. doUnmount e2 w' = Some (OK, w'')
                   \<and> calls w'' = calls w' @
                       [ForceUnmount kAsecPath (e_ForceUnmount e2 kAsecPath),
                        ForceUnmount [] (e_ForceUnmount e2 []),
                        ForceUnmount [] (e_ForceUnmount e2 []),
                        ForceUnmount [] (e_ForceUnmount e2 []),
                        ForceUnmount [] (e_ForceUnmount e2 []),
                        Rmdir [] (e_rmdir e2 []), Rmdir [] (e_rmdir e2 []),
                        Rmdir [] (e_rmdir e2 []), Rmdir [] (e_rmdir e2 [])]"
    by blast
  have c': "calls w' =
         Kill 4321 15 (- 1) # replicate (Suc n) (Waitpid 4321) @
         [ForceUnmount ''/mnt/secure/asec'' (- 1),
          ForceUnmount ''/mnt/runtime/default/ABCD-1234'' (- 1),
          ForceUnmount ''/mnt/runtime/read/ABCD-1234'' (- 1),
          ForceUnmount ''/mnt/runtime/write/ABCD-1234'' (- 1),
          ForceUnmount ''/mnt/media_rw/ABCD-1234'' (- 1),
          Rmdir ''/mnt/runtime/default/ABCD-1234'' (- 1),
          Rmdir ''/mnt/runtime/read/ABCD-1234'' (- 1),
          Rmdir ''/mnt/runtime/write/ABCD-1234'' (- 1),
          Rmdir ''/mnt/media_rw/ABCD-1234'' (- 1)]"
    unfolding c by (simp add: e bridged0_vol bridged0_calls SIGTERM_def kAsecPath_def)
  from again obtain w'' where "doUnmount env_teardown_fails w' = Some (OK, w'')"
    "calls w'' = calls w' @
                       [ForceUnmount kAsecPath (e_ForceUnmount env_teardown_fails kAsecPath),
                        ForceUnmount [] (e_ForceUnmount env_teardown_fails []),
                        ForceUnmount [] (e_ForceUnmount env_teardown_fails []),
                        ForceUnmount [] (e_ForceUnmount env_teardown_fails []),
                        ForceUnmount [] (e_ForceUnmount env_teardown_fails []),
                        Rmdir [] (e_rmdir env_teardown_fails []), Rmdir [] (e_rmdir env_teardown_fails []),
                        Rmdir [] (e_rmdir env_teardown_fails []), Rmdir [] (e_rmdir env_teardown_fails [])]"
    by blast
  then have again': "\<exists>w''. doUnmount env_teardown_fails w' = Some (OK, w'')
          \<and> calls w'' = calls w' @
              [ForceUnmount ''/mnt/secure/asec'' (- 1),
               ForceUnmount [] (- 1), ForceUnmount [] (- 1), ForceUnmount [] (- 1),
               ForceUnmount [] (- 1),
               Rmdir [] (- 1), Rmdir [] (- 1), Rmdir [] (- 1), Rmdir [] (- 1)]"
    by (simp add: e kAsecPath_def)
  have w0: "e_waitpid env_teardown_fails 4321 0 = (- 1, 10)" by (simp add: e)
  from run w0 c' again' show ?thesis by blast
qed

text \<open>
  C8. The three hook blocks of \<^verbatim>\<open>doMount\<close> are the evaluation, in the order OTA update,
  startup, cust, that the specification describes: a hook whose flag is claimed is skipped
  and the next one is evaluated; a hook whose flag is idle has its trigger file looked
  for; the first such hook whose file exists populates its slot (path, storage name =
  stable name, flag "1") and no later hook is evaluated; a hook whose file is absent
  passes on to the next. A mount whose probe, directories and native mount go through
  runs exactly this evaluation on the raw path and the stable name before it goes on.
\<close>

theorem hooks_evaluated_in_order:
  "update_hook e sn (raw @ ''/OTA/update.zip'') (raw @ ''/startup/start_up.sh'')
       (raw @ ''/cust/cust_update.zip'')
       (property_get_bool w ''sys.update.trigger'' 0)
       (property_get_bool w ''sys.startup.trigger'' 0)
       (property_get_bool w ''sys.cust.trigger'' 0) w
     = eval_hooks e sn (mount_hooks raw) w
   \<and> ((fst (snd (e_ReadMetadataUntrusted e (mDevPath (vol w)))) = ''vfat''
          \<or> fst (snd (e_ReadMetadataUntrusted e (mDevPath (vol w)))) = ''ntfs'')
       \<and> (e_vfat_Check e (mDevPath (vol w)) = 0
            \<and> e_vfat_Mount e (mDevPath (vol w))
                 (''/mnt/media_rw/'' @ stableName (vol (snd (readMetadata e w)))) = 0
          \<or> e_vfat_Check e (mDevPath (vol w)) \<noteq> 0 \<and> e_Ntfs_check e (mDevPath (vol w)) = 0)
       \<and> (\<forall>p. fst (e_fs_prepare_dir e p) = 0)
       \<longrightarrow> (\<exists>wm. doMount e w =
                  uevent_handled e (stableName (vol (snd (readMetadata e w))))
                    (eval_hooks e (stableName (vol (snd (readMetadata e w))))
                       (mount_hooks (''/mnt/media_rw/'' @ stableName (vol (snd (readMetadata e w)))))
                       wm)
                \<and> props wm = props w))"
proof (intro conjI impI)
  show "update_hook e sn (raw @ ''/OTA/update.zip'') (raw @ ''/startup/start_up.sh'')
       (raw @ ''/cust/cust_update.zip'')
       (property_get_bool w ''sys.update.trigger'' 0)
       (property_get_bool w ''sys.startup.trigger'' 0)
       (property_get_bool w ''sys.cust.trigger'' 0) w
     = eval_hooks e sn (mount_hooks raw) w"
    unfolding mount_hooks_def by (rule update_hook_spec)
next
  assume a: "(fst (snd (e_ReadMetadataUntrusted e (mDevPath (vol w)))) = ''vfat''
          \<or> fst (snd (e_ReadMetadataUntrusted e (mDevPath (vol w)))) = ''ntfs'')
       \<and> (e_vfat_Check e (mDevPath (vol w)) = 0
            \<and> e_vfat_Mount e (mDevPath (vol w))
                 (''/mnt/media_rw/'' @ stableName (vol (snd (readMetadata e w)))) = 0
          \<or> e_vfat_Check e (mDevPath (vol w)) \<noteq> 0 \<and> e_Ntfs_check e (mDevPath (vol w)) = 0)
       \<and> (\<forall>p. fst (e_fs_prepare_dir e p) = 0)"
  define sn where "sn = stableName (vol (snd (readMetadata e w)))"
  define raw where "raw = ''/mnt/media_rw/'' @ stableName (vol (snd (readMetadata e w)))"
  from a have sup: "fst (snd (e_ReadMetadataUntrusted e (mDevPath (vol w)))) = ''vfat''
          \<or> fst (snd (e_ReadMetadataUntrusted e (mDevPath (vol w)))) = ''ntfs''"
    and probe: "e_vfat_Check e (mDevPath (vol w)) = 0
            \<and> e_vfat_Mount e (mDevPath (vol w))
                 (''/mnt/media_rw/'' @ stableName (vol (snd (readMetadata e w)))) = 0
          \<or> e_vfat_Check e (mDevPath (vol w)) \<noteq> 0 \<and> e_Ntfs_check e (mDevPath (vol w)) = 0"
    and dirs: "\<And>p. fst (e_fs_prepare_dir e p) = 0"
    by simp_all
  from doMount_to_hooks [of e w, OF sup probe dirs]
  obtain wm where
    d: "doMount e w =
            uevent_handled e sn
              (update_hook e sn (raw @ ''/OTA/update.zip'') (raw @ ''/startup/start_up.sh'')
                 (raw @ ''/cust/cust_update.zip'')
                 (property_get_bool w ''sys.update.trigger'' 0)
                 (property_get_bool w ''sys.startup.trigger'' 0)
                 (property_get_bool w ''sys.cust.trigger'' 0) wm)"
    and pm: "props wm = props w"
    unfolding sn_def raw_def by blast
  have pg: "\<And>k. property_get_bool w k 0 = property_get_bool wm k 0"
    by (rule property_get_bool_cong) (simp add: pm)
  have "update_hook e sn (raw @ ''/OTA/update.zip'') (raw @ ''/startup/start_up.sh'')
                 (raw @ ''/cust/cust_update.zip'')
                 (property_get_bool w ''sys.update.trigger'' 0)
                 (property_get_bool w ''sys.startup.trigger'' 0)
                 (property_get_bool w ''sys.cust.trigger'' 0) wm
        = eval_hooks e sn (mount_hooks raw) wm"
    unfolding mount_hooks_def pg by (rule update_hook_spec)
  with d pm show "\<exists>wm. doMount e w =
                  uevent_handled e (stableName (vol (snd (readMetadata e w))))
                    (eval_hooks e (stableName (vol (snd (readMetadata e w))))
                       (mount_hooks (''/mnt/media_rw/'' @ stableName (vol (snd (readMetadata e w)))))
                       wm)
                \<and> props wm = props w"
    unfolding sn_def raw_def by (intro exI [where x = wm]) simp
qed

theorem hooks_evaluated_in_order_witness:
  "property_get_bool claimed0 ''sys.update.trigger'' 0 = 1
   \<and> property_get_bool claimed0 ''sys.startup.trigger'' 0 = 0
   \<and> calls (update_hook env_startup_file ''ABCD-1234''
              (''/mnt/media_rw/ABCD-1234'' @ ''/OTA/update.zip'')
              (''/mnt/media_rw/ABCD-1234'' @ ''/startup/start_up.sh'')
              (''/mnt/media_rw/ABCD-1234'' @ ''/cust/cust_update.zip'')
              (property_get_bool claimed0 ''sys.update.trigger'' 0)
              (property_get_bool claimed0 ''sys.startup.trigger'' 0)
              (property_get_bool claimed0 ''sys.cust.trigger'' 0) claimed0)
       = [Access ''/mnt/media_rw/ABCD-1234/startup/start_up.sh'' F_OK]
   \<and> map (props (update_hook env_startup_file ''ABCD-1234''
              (''/mnt/media_rw/ABCD-1234'' @ ''/OTA/update.zip'')
              (''/mnt/media_rw/ABCD-1234'' @ ''/startup/start_up.sh'')
              (''/mnt/media_rw/ABCD-1234'' @ ''/cust/cust_update.zip'')
              (property_get_bool claimed0 ''sys.update.trigger'' 0)
              (property_get_bool claimed0 ''sys.startup.trigger'' 0)
              (property_get_bool claimed0 ''sys.cust.trigger'' 0) claimed0))
         [''sys.update.path'', ''sys.update.storage'', ''sys.update.trigger'',
          ''sys.startup.path'', ''sys.startup.storage'', ''sys.startup.trigger'',
          ''sys.cust.path'', ''sys.cust.storage'', ''sys.cust.trigger'']
       = [None, None, Some ''1'',
          Some ''/mnt/media_rw/ABCD-1234/startup/start_up.sh'', Some ''ABCD-1234'', Some ''1'',
          None, None, None]
   \<and> (\<exists>wm. doMount env0 hidden0 =
                  uevent_handled env0 ''ABCD-1234''
                    (eval_hooks env0 ''ABCD-1234'' (mount_hooks ''/mnt/media_rw/ABCD-1234'') wm)
                \<and> props wm = props hidden0)"
proof -
  have p: "props claimed0 = map_of [(''sys.update.trigger'', ''1'')]" "calls claimed0 = []"
    by (simp_all add: claimed0_def hidden0_calls)
  have g: "property_get_bool claimed0 ''sys.update.trigger'' 0 = 1"
    "property_get_bool claimed0 ''sys.startup.trigger'' 0 = 0"
    "property_get_bool claimed0 ''sys.cust.trigger'' 0 = 0"
    by (simp_all add: property_get_bool_def property_get_def p)
  have acc: "e_access env_startup_file =
      (\<lambda>p m. if p = ''/mnt/media_rw/ABCD-1234/startup/start_up.sh'' then 0 else - 1)"
    by (simp add: env_startup_file_def)
  have ev: "eval_hooks env_startup_file ''ABCD-1234'' (mount_hooks ''/mnt/media_rw/ABCD-1234'') claimed0
     = claim_slot ''ABCD-1234''
         \<lparr>hook_file = ''/mnt/media_rw/ABCD-1234/startup/start_up.sh'',
          hook_path_key = ''sys.startup.path'', hook_storage_key = ''sys.startup.storage'',
          hook_trigger_key = ''sys.startup.trigger''\<rparr>
         (emit (Access ''/mnt/media_rw/ABCD-1234/startup/start_up.sh'' F_OK) claimed0)"
    by (simp add: mount_hooks_def hook_claimed_def g acc)
  have eq: "update_hook env_startup_file ''ABCD-1234''
              (''/mnt/media_rw/ABCD-1234'' @ ''/OTA/update.zip'')
              (''/mnt/media_rw/ABCD-1234'' @ ''/startup/start_up.sh'')
              (''/mnt/media_rw/ABCD-1234'' @ ''/cust/cust_update.zip'')
              (property_get_bool claimed0 ''sys.update.trigger'' 0)
              (property_get_bool claimed0 ''sys.startup.trigger'' 0)
              (property_get_bool claimed0 ''sys.cust.trigger'' 0) claimed0
     = eval_hooks env_startup_file ''ABCD-1234'' (mount_hooks ''/mnt/media_rw/ABCD-1234'') claimed0"
    by (rule hooks_evaluated_in_order [THEN conjunct1])
  have sn: "stableName (vol (snd (readMetadata env0 hidden0))) = ''ABCD-1234''"
    by (simp add: readMetadata_vol stableName_def env0_simps)
  have hyp: "(fst (snd (e_ReadMetadataUntrusted env0 (mDevPath (vol hidden0)))) = ''vfat''
          \<or> fst (snd (e_ReadMetadataUntrusted env0 (mDevPath (vol hidden0)))) = ''ntfs'')
       \<and> (e_vfat_Check env0 (mDevPath (vol hidden0)) = 0
            \<and> e_vfat_Mount env0 (mDevPath (vol hidden0))
                 (''/mnt/media_rw/'' @ stableName (vol (snd (readMetadata env0 hidden0)))) = 0
          \<or> e_vfat_Check env0 (mDevPath (vol hidden0)) \<noteq> 0 \<and> e_Ntfs_check env0 (mDevPath (vol hidden0)) = 0)
       \<and> (\<forall>p. fst (e_fs_prepare_dir env0 p) = 0)"
    by (simp add: env0_simps)
  from hooks_evaluated_in_order [where e = env0 and w = hidden0, THEN conjunct2, THEN mp, OF hyp]
  have mnt: "\<exists>wm. doMount env0 hidden0 =
                  uevent_handled env0 ''ABCD-1234''
                    (eval_hooks env0 ''ABCD-1234'' (mount_hooks ''/mnt/media_rw/ABCD-1234'') wm)
                \<and> props wm = props hidden0"
    unfolding sn by simp
  show ?thesis
    unfolding eq ev using g(1,2) mnt
    by (simp add: claim_slot_props p)
qed

text \<open>
  C1. A failure of the native mount ends the call with \<^verbatim>\<open>-EIO\<close> on the vfat path only.
  On the NTFS path the failure is logged and the call goes on: here the medium is NTFS, the
  NTFS mount answers -1, and \<^verbatim>\<open>doMount\<close> still looks for the three trigger files and
  returns success.
\<close>

theorem ntfs_mount_failure_does_not_abort:
  "\<exists>w'. doMount env_ntfs_mount_fails hidden0 = Some (Return OK, w')
     \<and> mFusePid (vol w') = 0
     \<and> calls w' =
      [ReadMetadataUntrusted ''/dev/block/vold/public:179:1'',
       NotifyEvent VolumeFsTypeChanged ''ntfs'',
       NotifyEvent VolumeFsUuidChanged ''ABCD-1234'',
       NotifyEvent VolumeFsLabelChanged ''USB'',
       VfatCheck ''/dev/block/vold/public:179:1'',
       NtfsCheck ''/dev/block/vold/public:179:1'',
       SetInternalPath ''/mnt/media_rw/ABCD-1234'',
       SetPath ''/mnt/media_rw/ABCD-1234'',
       FsPrepareDir ''/mnt/media_rw/ABCD-1234'' 448 0 0,
       FsPrepareDir ''/mnt/runtime/default/ABCD-1234'' 448 0 0,
       FsPrepareDir ''/mnt/runtime/read/ABCD-1234'' 448 0 0,
       FsPrepareDir ''/mnt/runtime/write/ABCD-1234'' 448 0 0,
       NtfsDoMount ''/dev/block/vold/public:179:1'' ''/mnt/media_rw/ABCD-1234'' (- 1),
       Access ''/mnt/media_rw/ABCD-1234/OTA/update.zip'' 0,
       Access ''/mnt/media_rw/ABCD-1234/startup/start_up.sh'' 0,
       Access ''/mnt/media_rw/ABCD-1234/cust/cust_update.zip'' 0]"
proof -
  have e: "e_ReadMetadataUntrusted env_ntfs_mount_fails = (\<lambda>p. (0, ''ntfs'', ''ABCD-1234'', ''USB''))"
    "e_vfat_Check env_ntfs_mount_fails = (\<lambda>p. - 1)" "e_Ntfs_check env_ntfs_mount_fails = (\<lambda>p. 0)"
    "e_fs_prepare_dir env_ntfs_mount_fails = (\<lambda>p. (0, 0))"
    "e_Ntfs_doMount env_ntfs_mount_fails = (\<lambda>s t. - 1)"
    "e_access env_ntfs_mount_fails = (\<lambda>p m. - 1)"
    by (simp_all add: env_ntfs_mount_fails_def env0_def)
  from doMount_hidden_run [of env_ntfs_mount_fails hidden0]
  show ?thesis
    by (clarsimp simp: e hidden0_vol hidden0_props hidden0_calls getMountFlags_def idle_when_unset
        assign_paths_vol readMetadata_vol stableName_def getId_def AID_ROOT_def F_OK_def)
qed

end
